theory Spec2Isabelle
  imports Main "HOL-Library.Word"
begin

text \<open>
  A shallow embedding of the passkey example: the two public-key decoders
  (\<^verbatim>\<open>parseP256SpkiBase64\<close> of \<^verbatim>\<open>utils/parseCred.ts\<close> and \<^verbatim>\<open>parseCoseP256Key\<close> of the
  server), the server's base64url helpers, and the four request handlers of the server with
  their three in-memory maps.

  Exceptions are values: a function that can throw returns \<open>exn + 'a\<close>, with \<open>Inl\<close> for the
  thrown exception. The handlers thread the server state explicitly and return the JSON
  response together with the new state.

  The code calls into the platform and into libraries. Base64, hex and \<^verbatim>\<open>atob\<close> are
  written out in full. The ASN.1 reader and the CBOR reader are written out for the definite-length
  encodings that keys use; on an encoding beyond that they answer \<open>Outside\<close>, which the
  decoders pass on as the exception \<open>Unmodelled\<close>: nothing is stated about such inputs. The
  cryptographic verifiers of the WebAuthn library are parameters of the handlers.
\<close>

section \<open>Bytes, exceptions and text encodings of the platform\<close>

type_synonym byte = "8 word"

text \<open>
  A thrown JavaScript exception. \<open>Error m\<close> is \<^verbatim>\<open>new Error(m)\<close>; the handlers only ever
  read its \<^verbatim>\<open>message\<close>. The messages of the code's own errors are the code's, letter for
  letter; the message of an exception thrown by the platform or by a library is given by
  its fixed part.
\<close>

datatype exn =
    Error string
  | TypeError string
  | InvalidCharacterError
  | Unmodelled

fun message :: "exn \<Rightarrow> string" where
  "message (Error m) = m"
| "message (TypeError m) = m"
| "message InvalidCharacterError = ''Invalid character''"
| "message Unmodelled = []"

text \<open>
  Base64 (RFC 4648). \<open>b64_sextets\<close> cuts bytes into 6-bit groups, three bytes to four groups,
  with a final group of one or two bytes giving two or three; \<open>b64_bytes\<close> is the way back,
  dropping the bits that do not fill a byte. \<^verbatim>\<open>Buffer.toString("base64")\<close> writes the groups
  in the standard alphabet and pads with \<^verbatim>\<open>=\<close> to a multiple of four characters.
\<close>

definition b64_alphabet :: string where
  "b64_alphabet = ''ABCDEFGHIJKLMNOPQRSTUVWXYZabcdefghijklmnopqrstuvwxyz0123456789+/''"

definition b64_char :: "nat \<Rightarrow> char" where
  "b64_char s = b64_alphabet ! s"

definition b64_index :: "char \<Rightarrow> nat option" where
  "b64_index c = map_of (zip b64_alphabet [0..<64]) c"

fun b64_sextets :: "byte list \<Rightarrow> nat list" where
  "b64_sextets [] = []"
| "b64_sextets [a] = [unat a div 4, unat a mod 4 * 16]"
| "b64_sextets [a, b] =
     [unat a div 4, unat a mod 4 * 16 + unat b div 16, unat b mod 16 * 4]"
| "b64_sextets (a # b # c # rest) =
     [unat a div 4, unat a mod 4 * 16 + unat b div 16,
      unat b mod 16 * 4 + unat c div 64, unat c mod 64] @ b64_sextets rest"

definition Buffer_toString_base64 :: "byte list \<Rightarrow> string" where
  "Buffer_toString_base64 a =
     map b64_char (b64_sextets a) @ replicate ((3 - length a mod 3) mod 3) (CHR ''='')"

fun b64_bytes :: "nat list \<Rightarrow> byte list" where
  "b64_bytes (s0 # s1 # s2 # s3 # rest) =
     [of_nat (s0 * 4 + s1 div 16), of_nat (s1 mod 16 * 16 + s2 div 4),
      of_nat (s2 mod 4 * 64 + s3)] @ b64_bytes rest"
| "b64_bytes [s0, s1, s2] =
     [of_nat (s0 * 4 + s1 div 16), of_nat (s1 mod 16 * 16 + s2 div 4)]"
| "b64_bytes [s0, s1] = [of_nat (s0 * 4 + s1 div 16)]"
| "b64_bytes [s0] = []"
| "b64_bytes [] = []"

text \<open>
  \<^verbatim>\<open>atob\<close> is the forgiving-base64 decode of the WHATWG Infra standard: ASCII whitespace is
  removed; when the length is then a multiple of four, one or two trailing \<^verbatim>\<open>=\<close> are removed;
  a length of 1 modulo 4 or a character outside the standard alphabet throws. The result
  is a string with one character per byte.
\<close>

definition ascii_whitespace :: "char \<Rightarrow> bool" where
  "ascii_whitespace c \<longleftrightarrow>
     c = CHR 0x09 \<or> c = CHR 0x0A \<or> c = CHR 0x0C \<or> c = CHR 0x0D \<or> c = CHR '' ''"

definition remove_padding :: "string \<Rightarrow> string" where
  "remove_padding data =
     (if length data mod 4 = 0 \<and> data \<noteq> [] \<and> last data = CHR ''=''
      then (let d = butlast data
            in if d \<noteq> [] \<and> last d = CHR ''='' then butlast d else d)
      else data)"

definition atob :: "string \<Rightarrow> exn + string" where
  "atob input =
     (let data = remove_padding (filter (\<lambda>c. \<not> ascii_whitespace c) input)
      in if length data mod 4 = 1 then Inl InvalidCharacterError
         else case those (map b64_index data) of
                None \<Rightarrow> Inl InvalidCharacterError
              | Some sextets \<Rightarrow> Inr (map (\<lambda>b. char_of (unat b)) (b64_bytes sextets)))"

text \<open>
  \<^verbatim>\<open>s.replace(/c/g, d)\<close> for a single character, and \<^verbatim>\<open>s.replace(/=+$/, "")\<close>.
\<close>

definition subst_char :: "char \<Rightarrow> char \<Rightarrow> char \<Rightarrow> char" where
  "subst_char old new c = (if c = old then new else c)"

definition replace_all :: "char \<Rightarrow> char \<Rightarrow> string \<Rightarrow> string" where
  "replace_all old new s = map (subst_char old new) s"

definition strip_trailing :: "char \<Rightarrow> string \<Rightarrow> string" where
  "strip_trailing p s = rev (dropWhile (\<lambda>c. c = p) (rev s))"

text \<open>The server's two base64url helpers.\<close>

definition uint8ArrayToBase64Url :: "byte list \<Rightarrow> string" where
  "uint8ArrayToBase64Url uint8Array =
     (let base64String = Buffer_toString_base64 uint8Array
      in strip_trailing (CHR ''='')
           (replace_all (CHR ''/'') (CHR ''_'')
              (replace_all (CHR ''+'') (CHR ''-'') base64String)))"

definition base64urlToUint8Array :: "string \<Rightarrow> exn + byte list" where
  "base64urlToUint8Array base64url =
     (let padding = replicate ((4 - length base64url mod 4) mod 4) (CHR ''='');
          base64 = replace_all (CHR ''_'') (CHR ''/'')
                     (replace_all (CHR ''-'') (CHR ''+'') (base64url @ padding))
      in case atob base64 of
           Inl e \<Rightarrow> Inl e
         | Inr rawData \<Rightarrow> Inr (map (\<lambda>c. of_nat (of_char c)) rawData))"


text \<open>\<^verbatim>\<open>Buffer.toString("hex")\<close>: two lower-case digits per byte.\<close>

definition hex_digit :: "nat \<Rightarrow> char" where
  "hex_digit n = ''0123456789abcdef'' ! n"

definition Buffer_toString_hex :: "byte list \<Rightarrow> string" where
  "Buffer_toString_hex bs =
     concat (map (\<lambda>b. [hex_digit (unat b div 16), hex_digit (unat b mod 16)]) bs)"

text \<open>
  \<^verbatim>\<open>Buffer.from(s, "base64")\<close> never throws: decoding stops at the first \<^verbatim>\<open>=\<close>, characters
  outside the alphabet are skipped, both the standard and the URL-safe alphabet are
  accepted, and a single left-over character is dropped.
\<close>

definition b64url_index :: "char \<Rightarrow> nat option" where
  "b64url_index c =
     (if c = CHR ''-'' then Some 62 else if c = CHR ''_'' then Some 63 else b64_index c)"

definition Buffer_from_base64 :: "string \<Rightarrow> byte list" where
  "Buffer_from_base64 s =
     b64_bytes (List.map_filter b64url_index (takeWhile (\<lambda>c. c \<noteq> CHR ''='') s))"

text \<open>
  \<^verbatim>\<open>Uint8Array.slice(start, stop)\<close> for indices that are not negative, and the decimal text
  of a length as a template literal prints it.
\<close>

definition Uint8Array_slice :: "nat \<Rightarrow> nat \<Rightarrow> 'a list \<Rightarrow> 'a list" where
  "Uint8Array_slice start stop xs = take (stop - start) (drop start xs)"

fun string_of_nat :: "nat \<Rightarrow> string" where
  "string_of_nat n =
     (if n < 10 then [char_of (48 + n)]
      else string_of_nat (n div 10) @ [char_of (48 + n mod 10)])"

text \<open>
  The answer of a library reader: \<open>Fail\<close> when the library reports an error, \<open>Outside\<close>
  when the input uses an encoding that is not written out here.
\<close>

datatype 'a parse = Fail | Outside | Ok 'a

section \<open>ASN.1 blocks and the SPKI decode path\<close>

text \<open>
  What \<^verbatim>\<open>parseP256SpkiBase64\<close> can observe of a block returned by \<^verbatim>\<open>fromBER\<close>:
  \<open>Constructed\<close> is a block whose \<^verbatim>\<open>valueBlock.value\<close> is the list of its children (SEQUENCE,
  SET); \<open>BitString\<close> is a primitive BIT STRING with its \<^verbatim>\<open>valueBlock.valueHex\<close>, the content
  after the unused-bits octet; \<open>Primitive\<close> is any other primitive block, with its tag number
  and content.

  \<open>fromBER\<close> reads the first block of the input and ignores what follows it. The
  children of a constructed block are read one after the other, at their offset in the
  input, while something remains of the content length the parent declares
  (\<open>ber_blocks buf off len\<close>): the header of a child has to lie within what remains, but the
  content of a child is bounded by the end of the input only, as the library checks a
  value against the whole buffer; a child that runs past its parent ends the parent. Written out
  are: one-octet tags of the universal class, definite lengths of up to four length octets,
  SEQUENCE and SET, primitive BIT STRING, OCTET STRING, NULL, INTEGER and OBJECT
  IDENTIFIER. \<open>Fail\<close> is the library's \<^verbatim>\<open>offset === -1\<close>.
\<close>

datatype asn1 =
    Constructed "asn1 list"
  | BitString "byte list"
  | Primitive nat "byte list"

definition ber_length :: "byte list \<Rightarrow> (nat \<times> nat) parse" where
  "ber_length bs =
     (case bs of
        [] \<Rightarrow> Fail
      | l # rest \<Rightarrow>
          if unat l < 128 then Ok (unat l, 1)
          else if unat l = 128 then Outside
          else if unat l = 255 then Fail
          else let k = unat l - 128
               in if 4 < k then Outside
                  else if length rest < k then Fail
                  else Ok (foldl (\<lambda>n b. n * 256 + unat b) 0 (take k rest), 1 + k))"

definition ber_header :: "byte list \<Rightarrow> (nat \<times> bool \<times> nat \<times> nat \<times> nat) parse" where
  "ber_header bs =
     (case bs of
        [] \<Rightarrow> Fail
      | t # rest \<Rightarrow>
          if unat t mod 32 = 31 then Outside
          else case ber_length rest of
                 Fail \<Rightarrow> Fail
               | Outside \<Rightarrow> Outside
               | Ok (len, used) \<Rightarrow>
                   Ok (unat t div 64, unat t div 32 mod 2 = 1, unat t mod 32, len, 1 + used))"

definition ber_block :: "nat \<Rightarrow> bool \<Rightarrow> nat \<Rightarrow> byte list \<Rightarrow> asn1 list parse \<Rightarrow> asn1 parse" where
  "ber_block cls constructed tag content children =
     (if cls \<noteq> 0 then Outside
      else if constructed then
        (if tag = 16 \<or> tag = 17
         then (case children of Fail \<Rightarrow> Fail | Outside \<Rightarrow> Outside
               | Ok blocks \<Rightarrow> Ok (Constructed blocks))
         else Outside)
      else if tag = 3 then
        (case content of
           [] \<Rightarrow> Ok (BitString [])
         | unusedBits # valueHex \<Rightarrow>
             if 7 < unat unusedBits then Fail else Ok (BitString valueHex))
      else if tag = 4 then Ok (Primitive tag content)
      else if tag = 5 \<and> content = [] then Ok (Primitive tag content)
      else if tag = 2 \<and> content \<noteq> [] then Ok (Primitive tag content)
      else if tag = 6 \<and> content \<noteq> [] \<and> unat (last content) < 128
        then Ok (Primitive tag content)
      else Outside)"

function ber_blocks :: "byte list \<Rightarrow> nat \<Rightarrow> nat \<Rightarrow> asn1 list parse" where
  "ber_blocks buf off len =
     (if len = 0 then Ok []
      else case ber_header (take len (drop off buf)) of
             Fail \<Rightarrow> Fail
           | Outside \<Rightarrow> Outside
           | Ok (cls, constructed, tag, clen, hdr) \<Rightarrow>
               if length buf < off + hdr + clen then Fail
               else let content = take clen (drop (off + hdr) buf)
                    in case ber_block cls constructed tag content
                              (if constructed then ber_blocks buf (off + hdr) clen else Ok []) of
                         Fail \<Rightarrow> Fail
                       | Outside \<Rightarrow> Outside
                       | Ok block \<Rightarrow>
                           (case ber_blocks buf (off + hdr + clen) (len - (hdr + clen)) of
                              Fail \<Rightarrow> Fail
                            | Outside \<Rightarrow> Outside
                            | Ok blocks \<Rightarrow> Ok (block # blocks)))"
  by pat_completeness auto
termination
proof -
  have hdr: "0 < hdr \<and> hdr \<le> length bs"
    if "ber_header bs = Ok (cls, c, tag, clen, hdr)" for bs cls c tag clen hdr
    using that
    by (auto simp: ber_header_def ber_length_def Let_def
             split: list.splits parse.splits if_splits)
  have inside: "off < length buf"
    if "ber_header (take len (drop off buf)) = Ok (cls, c, tag, clen, hdr)"
    for buf :: "byte list" and off len cls c tag clen hdr
  proof -
    have "0 < length (take len (drop off buf))" using hdr[OF that] by linarith
    then show ?thesis by simp
  qed
  show ?thesis
  proof (relation "measure (\<lambda>(buf, off, len). length buf - off)", goal_cases)
    case 1
    show ?case by simp
  next
    case (2 buf off len x cls rest c rest2 tag rest3 clen hdr)
    then have h: "ber_header (take len (drop off buf)) = Ok (cls, c, tag, clen, hdr)" by simp
    show ?case using hdr[OF h] inside[OF h] by (simp, arith)
  next
    case (3 buf off len x cls rest c rest2 tag rest3 clen hdr content block)
    then have h: "ber_header (take len (drop off buf)) = Ok (cls, c, tag, clen, hdr)" by simp
    show ?case using hdr[OF h] inside[OF h] by (simp, arith)
  qed
qed

definition fromBER :: "byte list \<Rightarrow> asn1 parse" where
  "fromBER buf =
     (case ber_header buf of
        Fail \<Rightarrow> Fail
      | Outside \<Rightarrow> Outside
      | Ok (cls, constructed, tag, clen, hdr) \<Rightarrow>
          if length buf < hdr + clen then Fail
          else let content = take clen (drop hdr buf)
               in ber_block cls constructed tag content
                    (if constructed then ber_blocks buf hdr clen else Ok []))"

text \<open>
  \<^verbatim>\<open>parseP256SpkiBase64\<close>, check by check. A primitive BIT STRING on top has at most one
  block in \<^verbatim>\<open>valueBlock.value\<close>, so the length check rejects it; for another primitive block
  on top the property access fails in a way that depends on its class, which is left
  \<open>Unmodelled\<close>.
\<close>

definition parseP256SpkiBase64 :: "string \<Rightarrow> exn + string \<times> string" where
  "parseP256SpkiBase64 pubKeyB64 =
     (let raw = Buffer_from_base64 pubKeyB64
      in case fromBER raw of
           Fail \<Rightarrow> Inl (Error ''Failed to parse ASN.1 structure (offset = -1).'')
         | Outside \<Rightarrow> Inl Unmodelled
         | Ok spkiSequence \<Rightarrow>
             (case spkiSequence of
                Primitive tag content \<Rightarrow> Inl Unmodelled
              | BitString valueHex \<Rightarrow>
                  Inl (Error ''Not a valid SubjectPublicKeyInfo sequence.'')
              | Constructed value \<Rightarrow>
                  if length value < 2
                  then Inl (Error ''Not a valid SubjectPublicKeyInfo sequence.'')
                  else
                    (case value ! 1 of
                       BitString pkBitString \<Rightarrow>
                         if length pkBitString < 65
                         then Inl (Error (''Public key bit string is too short. Length = ''
                                            @ string_of_nat (length pkBitString)))
                         else if pkBitString ! 0 \<noteq> 0x04
                         then Inl (Error
                           ''Expected uncompressed format (0x04) at start of public key data.'')
                         else
                           let xBytes = Uint8Array_slice 1 33 pkBitString;
                               yBytes = Uint8Array_slice 33 65 pkBitString;
                               xHex = Buffer_toString_hex xBytes;
                               yHex = Buffer_toString_hex yBytes
                           in Inr (xHex, yHex)
                     | _ \<Rightarrow>
                         Inl (Error
                           ''SPKI does not contain a BitString in the second element.''))))"


section \<open>Decoded CBOR values and the COSE decode path\<close>

text \<open>
  The JavaScript values that \<^verbatim>\<open>cbor.decodeFirstSync\<close> produces for integers, byte strings,
  text strings, \<^verbatim>\<open>false\<close>, \<^verbatim>\<open>true\<close>, \<^verbatim>\<open>null\<close>, \<^verbatim>\<open>undefined\<close> and maps. The library turns a
  map whose keys are all text strings into a plain object (\<open>JObject\<close>) and any other map
  into a \<^verbatim>\<open>Map\<close> (\<open>JMap\<close>); entries are kept in the order of the input. Written out are
  definite lengths with arguments of up to four octets and ASCII text; arrays, tags,
  floating-point numbers and trailing bytes answer \<open>Outside\<close>. The reader recurses on a
  fuel that starts above the input length, and each nested item uses at least one octet.
\<close>

datatype js_value =
    JNumber int
  | JBuffer "byte list"
  | JString string
  | JBool bool
  | JNull
  | JUndefined
  | JMap "(js_value \<times> js_value) list"
  | JObject "(js_value \<times> js_value) list"

definition cbor_argument :: "nat \<Rightarrow> byte list \<Rightarrow> (nat \<times> byte list) parse" where
  "cbor_argument ai bs =
     (if ai < 24 then Ok (ai, bs)
      else if ai = 24 \<or> ai = 25 \<or> ai = 26 then
        (let k = 2 ^ (ai - 24)
         in if length bs < k then Fail
            else Ok (foldl (\<lambda>n b. n * 256 + unat b) 0 (take k bs), drop k bs))
      else if ai = 27 \<or> ai = 31 then Outside
      else Fail)"

definition is_JString :: "js_value \<Rightarrow> bool" where
  "is_JString v = (case v of JString s \<Rightarrow> True | _ \<Rightarrow> False)"

fun cbor_item :: "nat \<Rightarrow> byte list \<Rightarrow> (js_value \<times> byte list) parse"
  and cbor_pairs :: "nat \<Rightarrow> nat \<Rightarrow> byte list \<Rightarrow> ((js_value \<times> js_value) list \<times> byte list) parse"
where
  "cbor_item 0 bs = Outside"
| "cbor_item (Suc fuel) [] = Fail"
| "cbor_item (Suc fuel) (b # bs) =
     (let mt = unat b div 32; ai = unat b mod 32
      in if mt = 7 then
           (if ai = 20 then Ok (JBool False, bs)
            else if ai = 21 then Ok (JBool True, bs)
            else if ai = 22 then Ok (JNull, bs)
            else if ai = 23 then Ok (JUndefined, bs)
            else if ai = 28 \<or> ai = 29 \<or> ai = 30 then Fail
            else Outside)
         else case cbor_argument ai bs of
                Fail \<Rightarrow> Fail
              | Outside \<Rightarrow> Outside
              | Ok (n, rest) \<Rightarrow>
                  if mt = 0 then Ok (JNumber (int n), rest)
                  else if mt = 1 then Ok (JNumber (- 1 - int n), rest)
                  else if mt = 2 then
                    (if length rest < n then Fail
                     else Ok (JBuffer (take n rest), drop n rest))
                  else if mt = 3 then
                    (if length rest < n then Fail
                     else if list_ex (\<lambda>c. 128 \<le> unat c) (take n rest) then Outside
                     else Ok (JString (map (\<lambda>c. char_of (unat c)) (take n rest)), drop n rest))
                  else if mt = 5 then
                    (case cbor_pairs fuel n rest of
                       Fail \<Rightarrow> Fail
                     | Outside \<Rightarrow> Outside
                     | Ok (entries, rest') \<Rightarrow>
                         if list_all (\<lambda>(k, v). is_JString k) entries
                         then Ok (JObject entries, rest')
                         else Ok (JMap entries, rest'))
                  else Outside)"
| "cbor_pairs fuel 0 bs = Ok ([], bs)"
| "cbor_pairs fuel (Suc n) bs =
     (case cbor_item fuel bs of
        Fail \<Rightarrow> Fail
      | Outside \<Rightarrow> Outside
      | Ok (k, rest) \<Rightarrow>
          (case cbor_item fuel rest of
             Fail \<Rightarrow> Fail
           | Outside \<Rightarrow> Outside
           | Ok (v, rest') \<Rightarrow>
               (case cbor_pairs fuel n rest' of
                  Fail \<Rightarrow> Fail
                | Outside \<Rightarrow> Outside
                | Ok (entries, rest'') \<Rightarrow> Ok ((k, v) # entries, rest''))))"

definition cbor_decodeFirstSync :: "byte list \<Rightarrow> js_value parse" where
  "cbor_decodeFirstSync bs =
     (case cbor_item (Suc (length bs)) bs of
        Fail \<Rightarrow> Fail
      | Outside \<Rightarrow> Outside
      | Ok (v, rest) \<Rightarrow> if rest = [] then Ok v else Outside)"

text \<open>
  \<^verbatim>\<open>Map.prototype.get\<close> (a later entry for the same key has replaced an earlier one),
  JavaScript truthiness, and \<^verbatim>\<open>Buffer.from(value)\<close>, which copies a buffer, encodes a string
  and throws a \<^verbatim>\<open>TypeError\<close> for a number, a boolean or a \<^verbatim>\<open>Map\<close>.
\<close>

definition Map_get :: "(js_value \<times> js_value) list \<Rightarrow> js_value \<Rightarrow> js_value" where
  "Map_get entries k = (case map_of (rev entries) k of None \<Rightarrow> JUndefined | Some v \<Rightarrow> v)"

fun truthy :: "js_value \<Rightarrow> bool" where
  "truthy (JNumber n) = (n \<noteq> 0)"
| "truthy (JBuffer bs) = True"
| "truthy (JString s) = (s \<noteq> [])"
| "truthy (JBool b) = b"
| "truthy JNull = False"
| "truthy JUndefined = False"
| "truthy (JMap entries) = True"
| "truthy (JObject entries) = True"

fun Buffer_from :: "js_value \<Rightarrow> exn + byte list" where
  "Buffer_from (JBuffer bs) = Inr bs"
| "Buffer_from (JString s) = Inr (map (\<lambda>c. of_nat (of_char c)) s)"
| "Buffer_from (JObject entries) = Inl Unmodelled"
| "Buffer_from v =
     Inl (TypeError ''The first argument must be of type string or an instance of Buffer, ArrayBuffer, or Array or an Array-like Object.'')"

text \<open>
  \<^verbatim>\<open>parseCoseP256Key\<close>, statement by statement. When the CBOR reader throws, the message
  is the library's, written here as its message for an input that ends too early.
\<close>

definition parseCoseP256Key :: "string \<Rightarrow> exn + string \<times> string" where
  "parseCoseP256Key coseB64Url =
     (let base64 = replace_all (CHR ''_'') (CHR ''/'')
                     (replace_all (CHR ''-'') (CHR ''+'') coseB64Url);
          pad = 4 - length base64 mod 4;
          base64Padded = (if pad \<noteq> 4 then base64 @ replicate pad (CHR ''='') else base64);
          coseBytes = Buffer_from_base64 base64Padded
      in case cbor_decodeFirstSync coseBytes of
           Fail \<Rightarrow> Inl (Error ''Insufficient data'')
         | Outside \<Rightarrow> Inl Unmodelled
         | Ok coseStruct \<Rightarrow>
             (case coseStruct of
                JMap entries \<Rightarrow>
                  let xBuf = Map_get entries (JNumber (- 2));
                      yBuf = Map_get entries (JNumber (- 3))
                  in if \<not> truthy xBuf \<or> \<not> truthy yBuf
                     then Inl (Error ''COSE key missing x or y'')
                     else
                       (case Buffer_from xBuf of
                          Inl err \<Rightarrow> Inl err
                        | Inr xBytes \<Rightarrow>
                            (case Buffer_from yBuf of
                               Inl err \<Rightarrow> Inl err
                             | Inr yBytes \<Rightarrow>
                                 Inr (Buffer_toString_hex xBytes, Buffer_toString_hex yBytes)))
              | _ \<Rightarrow> Inl (Error ''COSE public key is not a CBOR map?'')))"


section \<open>The passkey server: stores and handlers\<close>

text \<open>
  The three module-level maps of the server make up its state. A handler takes the state
  and returns the response with the state after the request.
\<close>

record Credentials =
  credentialID :: string
  publicKey :: string
  counter :: nat

record UserRecord =
  username :: string
  credentials :: Credentials

record server =
  userDB :: "string \<rightharpoonup> UserRecord"
  registrationChallengeMap :: "string \<rightharpoonup> string"
  loginChallengeMap :: "string \<rightharpoonup> bool"

definition rpID :: string where
  "rpID = ''example.com''"

definition ORIGIN :: string where
  "ORIGIN = ''ORIGIN''"

text \<open>
  The arguments and results of \<^verbatim>\<open>verifyRegistrationResponse\<close> and
  \<^verbatim>\<open>verifyAuthenticationResponse\<close>. The client's credential is opaque except for
  \<^verbatim>\<open>response.userHandle\<close>, which the login handler reads.
\<close>

record RegistrationInfo =
  info_credentialID :: "byte list"
  info_credentialPublicKey :: "byte list"
  info_counter :: nat

record VerifiedRegistration =
  reg_verified :: bool
  registrationInfo :: "RegistrationInfo option"

record 'r RegistrationOpts =
  reg_response :: 'r
  reg_expectedChallenge :: string
  reg_expectedRPID :: string
  reg_expectedOrigin :: string
  requireUserVerification :: bool

record AuthenticationInfo =
  newCounter :: nat

record VerifiedAuthentication =
  auth_verified :: bool
  authenticationInfo :: "AuthenticationInfo option"

record 'a AuthenticationResponseJSON =
  userHandle :: "string option"
  assertion :: 'a

record 'a Authenticator =
  spread_credential :: "'a AuthenticationResponseJSON"
  auth_credentialID :: "byte list"
  auth_credentialPublicKey :: "byte list"
  auth_counter :: nat

record 'a AuthenticationOpts =
  auth_response :: "'a AuthenticationResponseJSON"
  auth_expectedChallenge :: string
  auth_expectedRPID :: string
  auth_expectedOrigin :: string
  authenticator :: "'a Authenticator"

datatype response =
    Json_error string nat
  | Json_options string
  | Json_registration_ok
  | Json_login_ok string string

text \<open>
  The handlers. The fresh user identifier (\<^verbatim>\<open>uuidv4()\<close>) and the fresh challenges (made
  by the WebAuthn library) are inputs of the two generating handlers. The verifying
  handlers take the library's verifier as a parameter; a verifier that throws returns
  \<open>Inl\<close>, and the handler's \<^verbatim>\<open>catch\<close> answers with the exception's message.

  In \<^verbatim>\<open>/verify-login\<close> the assignment to \<^verbatim>\<open>userRecord.credentials.counter\<close> changes the
  record held by \<^verbatim>\<open>userDB\<close>, so it is an update of the map at \<open>userId\<close>.
\<close>

definition generate_registration_options ::
  "server \<Rightarrow> string \<Rightarrow> string \<Rightarrow> string \<Rightarrow> response \<times> server" where
  "generate_registration_options db userName userId challenge =
     (let db1 = (case userDB db userId of
                   Some userRecord \<Rightarrow> db
                 | None \<Rightarrow>
                     db\<lparr>userDB := (userDB db)(userId \<mapsto>
                          \<lparr>username = userName,
                           credentials = \<lparr>credentialID = [], publicKey = [], counter = 0\<rparr>\<rparr>)\<rparr>)
      in (Json_options challenge,
          db1\<lparr>registrationChallengeMap := (registrationChallengeMap db1)(userId \<mapsto> challenge)\<rparr>))"

definition verify_registration ::
  "('r RegistrationOpts \<Rightarrow> exn + VerifiedRegistration) \<Rightarrow>
   server \<Rightarrow> string \<Rightarrow> 'r \<Rightarrow> response \<times> server" where
  "verify_registration verifyRegistrationResponse db userId credential =
     (case registrationChallengeMap db userId of
        None \<Rightarrow> (Json_error ''No challenge found for user'' 400, db)
      | Some expectedChallenge \<Rightarrow>
          if expectedChallenge = [] then (Json_error ''No challenge found for user'' 400, db)
          else
            (case userDB db userId of
               None \<Rightarrow> (Json_error ''User not found'' 404, db)
             | Some userRecord \<Rightarrow>
                 (case verifyRegistrationResponse
                         \<lparr>reg_response = credential,
                          reg_expectedChallenge = expectedChallenge,
                          reg_expectedRPID = rpID,
                          reg_expectedOrigin = ORIGIN,
                          requireUserVerification = True\<rparr> of
                    Inl err \<Rightarrow> (Json_error (message err) 400, db)
                  | Inr verification \<Rightarrow>
                      (case registrationInfo verification of
                         None \<Rightarrow> (Json_error ''Registration not verified'' 400, db)
                       | Some info \<Rightarrow>
                           if \<not> reg_verified verification
                           then (Json_error ''Registration not verified'' 400, db)
                           else
                             (Json_registration_ok,
                              db\<lparr>userDB := (userDB db)(userId \<mapsto>
                                    \<lparr>username = username userRecord,
                                     credentials =
                                       \<lparr>credentialID =
                                          uint8ArrayToBase64Url (info_credentialID info),
                                        publicKey =
                                          uint8ArrayToBase64Url (info_credentialPublicKey info),
                                        counter = info_counter info\<rparr>\<rparr>),
                                 registrationChallengeMap :=
                                   (registrationChallengeMap db)(userId := None)\<rparr>)))))"

definition generate_login_options :: "server \<Rightarrow> string \<Rightarrow> response \<times> server" where
  "generate_login_options db challenge =
     (Json_options challenge,
      db\<lparr>loginChallengeMap := (loginChallengeMap db)(challenge \<mapsto> True)\<rparr>)"

definition verify_login ::
  "('a AuthenticationOpts \<Rightarrow> exn + VerifiedAuthentication) \<Rightarrow>
   server \<Rightarrow> 'a AuthenticationResponseJSON \<Rightarrow> string \<Rightarrow> response \<times> server" where
  "verify_login verifyAuthenticationResponse db credential challenge =
     (if loginChallengeMap db challenge = None
      then (Json_error ''Challenge not found or expired'' 400, db)
      else
        (case userHandle credential of
           None \<Rightarrow> (Json_error ''UserId Not Found'' 400, db)
         | Some userId \<Rightarrow>
             if userId = [] then (Json_error ''UserId Not Found'' 400, db)
             else
               (case userDB db userId of
                  None \<Rightarrow> (Json_error ''User Not Found'' 400, db)
                | Some userRecord \<Rightarrow>
                    (case base64urlToUint8Array (credentialID (credentials userRecord)) of
                       Inl err \<Rightarrow> (Json_error (message err) 400, db)
                     | Inr storedID \<Rightarrow>
                    (case base64urlToUint8Array (publicKey (credentials userRecord)) of
                       Inl err \<Rightarrow> (Json_error (message err) 400, db)
                     | Inr storedKey \<Rightarrow>
                    (case verifyAuthenticationResponse
                            \<lparr>auth_response = credential,
                             auth_expectedChallenge = challenge,
                             auth_expectedRPID = rpID,
                             auth_expectedOrigin = ORIGIN,
                             authenticator =
                               \<lparr>spread_credential = credential,
                                auth_credentialID = storedID,
                                auth_credentialPublicKey = storedKey,
                                auth_counter = counter (credentials userRecord)\<rparr>\<rparr> of
                       Inl err \<Rightarrow> (Json_error (message err) 400, db)
                     | Inr verification \<Rightarrow>
                         (case authenticationInfo verification of
                            None \<Rightarrow> (Json_error ''Login not verified'' 400, db)
                          | Some info \<Rightarrow>
                              if \<not> auth_verified verification
                              then (Json_error ''Login not verified'' 400, db)
                              else
                                let userRecord' = userRecord\<lparr>credentials :=
                                      (credentials userRecord)\<lparr>counter := newCounter info\<rparr>\<rparr>;
                                    db1 = db\<lparr>userDB := (userDB db)(userId \<mapsto> userRecord')\<rparr>;
                                    db2 = db1\<lparr>loginChallengeMap :=
                                                (loginChallengeMap db1)(challenge := None)\<rparr>
                                in (case parseCoseP256Key (publicKey (credentials userRecord')) of
                                      Inl err \<Rightarrow> (Json_error (message err) 400, db2)
                                    | Inr (xHex, yHex) \<Rightarrow>
                                        (Json_login_ok xHex yHex, db2)))))))))"

text \<open>A run of the server: requests handled one after the other.\<close>

datatype ('r, 'a) request =
    GenerateRegistrationOptions string string string
  | VerifyRegistration string 'r
  | GenerateLoginOptions string
  | VerifyLogin "'a AuthenticationResponseJSON" string

fun handle ::
  "('r RegistrationOpts \<Rightarrow> exn + VerifiedRegistration) \<Rightarrow>
   ('a AuthenticationOpts \<Rightarrow> exn + VerifiedAuthentication) \<Rightarrow>
   server \<Rightarrow> ('r, 'a) request \<Rightarrow> response \<times> server" where
  "handle vr va db (GenerateRegistrationOptions userName userId challenge) =
     generate_registration_options db userName userId challenge"
| "handle vr va db (VerifyRegistration userId credential) =
     verify_registration vr db userId credential"
| "handle vr va db (GenerateLoginOptions challenge) = generate_login_options db challenge"
| "handle vr va db (VerifyLogin credential challenge) = verify_login va db credential challenge"

fun serve ::
  "('r RegistrationOpts \<Rightarrow> exn + VerifiedRegistration) \<Rightarrow>
   ('a AuthenticationOpts \<Rightarrow> exn + VerifiedAuthentication) \<Rightarrow>
   server \<Rightarrow> ('r, 'a) request list \<Rightarrow> server" where
  "serve vr va db [] = db"
| "serve vr va db (req # reqs) = serve vr va (snd (handle vr va db req)) reqs"

text \<open>
  Modelled from the spec: \<^verbatim>\<open>verifyAuthenticationResponse\<close> belongs to the WebAuthn library
  and is not part of the sources. The specification says that the reported counter must be
  strictly greater than the stored one unless both are zero, that anything else
  non-increasing signals \<^verbatim>\<open>ReplayDetectedError\<close>, that any cryptographic mismatch signals
  \<^verbatim>\<open>AssertionVerificationError\<close>, and that a verified assertion yields the reported counter
  as the new counter. The cryptographic check \<open>assertion_ok\<close> and the reading of the
  reported counter from the assertion are parameters.
\<close>

definition counter_accepted :: "nat \<Rightarrow> nat \<Rightarrow> bool" where
  "counter_accepted reported stored \<longleftrightarrow> stored < reported \<or> (reported = 0 \<and> stored = 0)"

definition verifyAuthenticationResponse ::
  "('a AuthenticationOpts \<Rightarrow> bool) \<Rightarrow> ('a AuthenticationResponseJSON \<Rightarrow> nat) \<Rightarrow>
   'a AuthenticationOpts \<Rightarrow> exn + VerifiedAuthentication" where
  "verifyAuthenticationResponse assertion_ok reported_counter opts =
     (let reported = reported_counter (auth_response opts);
          stored = auth_counter (authenticator opts)
      in if \<not> counter_accepted reported stored then Inl (Error ''ReplayDetectedError'')
         else if \<not> assertion_ok opts then Inl (Error ''AssertionVerificationError'')
         else Inr \<lparr>auth_verified = True,
                   authenticationInfo = Some \<lparr>newCounter = reported\<rparr>\<rparr>)"


text \<open>A verifier's answer that the handlers treat as a failed verification.\<close>

definition registration_rejected :: "exn + VerifiedRegistration \<Rightarrow> bool" where
  "registration_rejected r =
     (case r of
        Inl err \<Rightarrow> True
      | Inr verification \<Rightarrow>
          \<not> reg_verified verification \<or> registrationInfo verification = None)"

definition authentication_rejected :: "exn + VerifiedAuthentication \<Rightarrow> bool" where
  "authentication_rejected r =
     (case r of
        Inl err \<Rightarrow> True
      | Inr verification \<Rightarrow>
          \<not> auth_verified verification \<or> authenticationInfo verification = None)"

section \<open>Concrete inputs\<close>

text \<open>
  \<open>example_pubKeyB64\<close> is the key quoted in \<^verbatim>\<open>parseCred.ts\<close>; \<open>example_point\<close> and
  \<open>example_spki\<close> are its point and its ASN.1 structure, \<open>compressed_pubKeyB64\<close> is the same
  key with the point's first byte changed to 2, and \<open>example_coseKey\<close> is the same point as
  a COSE key. \<open>short_coseKey\<close> is the COSE map \<open>{-2: h'01', -3: h'02'}\<close>,
  \<open>zero_coseKey\<close> is \<open>{-2: 0, -3: 0}\<close>, and \<open>okp_coseKey\<close> is
  \<open>{1: 1, 3: -8, -1: 6, -2: h'0102'}\<close>, a key with no entry at \<open>-3\<close>.

  \<open>example_db key\<close> is the server after alice has registered a credential with the public
  key \<open>key\<close> and the counter 5, bob has asked for registration options and somebody has
  asked for login options. The verifiers \<open>reject_registration\<close>, \<open>accept_registration\<close> and
  \<open>reject_authentication\<close> answer the same whatever they are given.
\<close>

definition example_pubKeyB64 :: string where
  "example_pubKeyB64 =
     ''MFkwEwYHKoZIzj0CAQYIKoZIzj0DAQcDQgAEJRJO-ZH7C2sld2m14Qd9frXJXfs2e8KNXlpfwXNxHH9OaBMIK7S3r_TiNlIn05LoD6eU0WylGNIyMdFEy8xg5A''"

definition example_point :: "byte list" where
  "example_point =
     [4, 37, 18, 78, 249, 145, 251, 11, 107, 37, 119, 105, 181, 225, 7, 125, 126, 181, 201, 93,
      251, 54, 123, 194, 141, 94, 90, 95, 193, 115, 113, 28, 127, 78, 104, 19, 8, 43, 180, 183,
      175, 244, 226, 54, 82, 39, 211, 146, 232, 15, 167, 148, 209, 108, 165, 24, 210, 50, 49,
      209, 68, 203, 204, 96, 228]"

definition example_spki :: "asn1 list" where
  "example_spki =
     [Constructed [Primitive 6 [42, 134, 72, 206, 61, 2, 1],
                   Primitive 6 [42, 134, 72, 206, 61, 3, 1, 7]],
      BitString example_point]"

definition compressed_pubKeyB64 :: string where
  "compressed_pubKeyB64 =
     ''MFkwEwYHKoZIzj0CAQYIKoZIzj0DAQcDQgACJRJO-ZH7C2sld2m14Qd9frXJXfs2e8KNXlpfwXNxHH9OaBMIK7S3r_TiNlIn05LoD6eU0WylGNIyMdFEy8xg5A''"

definition example_coseKey :: string where
  "example_coseKey =
     ''pQECAyYgASFYICUSTvmR-wtrJXdpteEHfX61yV37NnvCjV5aX8FzcRx_IlggTmgTCCu0t6_04jZSJ9OS6A-nlNFspRjSMjHRRMvMYOQ''"

definition short_coseKey :: string where
  "short_coseKey = ''oiFBASJBAg''"

definition zero_coseKey :: string where
  "zero_coseKey = ''oiEAIgA''"

definition okp_coseKey :: string where
  "okp_coseKey = ''pAEBAycgBiFCAQI''"

definition example_xHex :: string where
  "example_xHex = ''25124ef991fb0b6b257769b5e1077d7eb5c95dfb367bc28d5e5a5fc173711c7f''"

definition example_yHex :: string where
  "example_yHex = ''4e6813082bb4b7aff4e2365227d392e80fa794d16ca518d23231d144cbcc60e4''"

definition example_user :: "string \<Rightarrow> UserRecord" where
  "example_user key =
     \<lparr>username = ''alice'',
      credentials = \<lparr>credentialID = ''AQID'', publicKey = key, counter = 5\<rparr>\<rparr>"

definition pending_user :: UserRecord where
  "pending_user =
     \<lparr>username = ''bob'',
      credentials = \<lparr>credentialID = [], publicKey = [], counter = 0\<rparr>\<rparr>"

definition example_db :: "string \<Rightarrow> server" where
  "example_db key =
     \<lparr>userDB = [''user-1'' \<mapsto> example_user key, ''user-2'' \<mapsto> pending_user],
      registrationChallengeMap = [''user-2'' \<mapsto> ''reg-challenge''],
      loginChallengeMap = [''login-challenge'' \<mapsto> True]\<rparr>"

definition empty_server :: server where
  "empty_server =
     \<lparr>userDB = Map.empty, registrationChallengeMap = Map.empty,
      loginChallengeMap = Map.empty\<rparr>"

definition example_assertion :: "unit AuthenticationResponseJSON" where
  "example_assertion = \<lparr>userHandle = Some ''user-1'', assertion = ()\<rparr>"

definition reject_registration :: "unit RegistrationOpts \<Rightarrow> exn + VerifiedRegistration" where
  "reject_registration opts = Inl (Error ''Unexpected registration response challenge'')"

definition accept_registration ::
  "byte list \<Rightarrow> nat \<Rightarrow> unit RegistrationOpts \<Rightarrow> exn + VerifiedRegistration" where
  "accept_registration key n opts =
     Inr \<lparr>reg_verified = True,
          registrationInfo =
            Some \<lparr>info_credentialID = [1, 2, 3],
                  info_credentialPublicKey = key,
                  info_counter = n\<rparr>\<rparr>"

definition short_coseBytes :: "byte list" where
  "short_coseBytes = [0xA2, 0x21, 0x41, 1, 0x22, 0x41, 2]"

definition reject_authentication :: "unit AuthenticationOpts \<Rightarrow> exn + VerifiedAuthentication" where
  "reject_authentication opts = Inl (Error ''Unexpected authentication response challenge'')"

definition assertion_accepted :: "unit AuthenticationOpts \<Rightarrow> bool" where
  "assertion_accepted opts = True"

definition reports :: "nat \<Rightarrow> unit AuthenticationResponseJSON \<Rightarrow> nat" where
  "reports n credential = n"

section \<open>Base64 and hexadecimal text\<close>

lemma unat_byte_lt: "unat (a::byte) < 256"
  using unsigned_less[of a, where 'a=nat] by simp

lemma pack_div: "x < m \<Longrightarrow> (y * m + x) div m = (y::nat)" by simp
lemma pack_mod: "x < m \<Longrightarrow> (y * m + x) mod m = (x::nat)" by simp

lemma hi4: "unat (b::byte) div 16 < 16" using unat_byte_lt[of b] by simp
lemma hi2: "unat (b::byte) div 64 < 4" using unat_byte_lt[of b] by simp

lemma b64_bytes_sextets: "b64_bytes (b64_sextets a) = a"
proof (induction a rule: b64_sextets.induct)
  case 1 show ?case by simp
next
  case (2 a)
  show ?case by simp
next
  case (3 a b)
  show ?case by (simp add: pack_div pack_mod hi4)
next
  case (4 a b c rest)
  then show ?case by (simp add: pack_div pack_mod hi4 hi2)
qed

lemma sextet_bound: "x < 4 \<Longrightarrow> y < 16 \<Longrightarrow> x * 16 + y < (64::nat)" by simp
lemma sextet_bound2: "x < 16 \<Longrightarrow> y < 4 \<Longrightarrow> x * 4 + y < (64::nat)" by simp

lemma b64_sextets_lt: "s \<in> set (b64_sextets a) \<Longrightarrow> s < 64"
proof (induction a rule: b64_sextets.induct)
  case 1 then show ?case by simp
next
  case (2 a)
  have "unat a div 4 < 64" using unat_byte_lt[of a] by simp
  moreover have "unat a mod 4 * 16 < 64" using sextet_bound[of "unat a mod 4" 0] by simp
  ultimately show ?case using 2 by auto
next
  case (3 a b)
  have "unat a div 4 < 64" using unat_byte_lt[of a] by simp
  moreover have "unat a mod 4 * 16 + unat b div 16 < 64" by (simp add: sextet_bound hi4)
  moreover have "unat b mod 16 * 4 < 64" using sextet_bound2[of "unat b mod 16" 0] by simp
  ultimately show ?case using 3 by auto
next
  case (4 a b c rest)
  have "unat a div 4 < 64" using unat_byte_lt[of a] by simp
  moreover have "unat a mod 4 * 16 + unat b div 16 < 64" by (simp add: sextet_bound hi4)
  moreover have "unat b mod 16 * 4 + unat c div 64 < 64" by (simp add: sextet_bound2 hi2)
  moreover have "unat c mod 64 < 64" by simp
  ultimately show ?case using 4 by auto
qed

lemma length_b64_sextets:
  "(4 - length (b64_sextets a) mod 4) mod 4 = (3 - length a mod 3) mod 3"
  by (induction a rule: b64_sextets.induct) simp_all

lemma length_b64_sextets_ne1: "length (b64_sextets a) mod 4 \<noteq> 1"
  by (induction a rule: b64_sextets.induct) simp_all

lemma b64_char_table:
  "list_all (\<lambda>s. b64_index (b64_char s) = Some s
      \<and> subst_char (CHR ''_'') (CHR ''/'') (subst_char (CHR ''-'') (CHR ''+'')
           (subst_char (CHR ''/'') (CHR ''_'') (subst_char (CHR ''+'') (CHR ''-'') (b64_char s))))
          = b64_char s
      \<and> subst_char (CHR ''/'') (CHR ''_'') (subst_char (CHR ''+'') (CHR ''-'') (b64_char s))
          \<noteq> CHR ''=''
      \<and> b64_char s \<noteq> CHR ''=''
      \<and> \<not> ascii_whitespace (b64_char s)) [0..<64]"
  by code_simp

lemma b64_char_facts:
  assumes "s < 64"
  shows "b64_index (b64_char s) = Some s"
    "subst_char (CHR ''_'') (CHR ''/'') (subst_char (CHR ''-'') (CHR ''+'')
       (subst_char (CHR ''/'') (CHR ''_'') (subst_char (CHR ''+'') (CHR ''-'') (b64_char s))))
     = b64_char s"
    "subst_char (CHR ''/'') (CHR ''_'') (subst_char (CHR ''+'') (CHR ''-'') (b64_char s))
     \<noteq> CHR ''=''"
    "b64_char s \<noteq> CHR ''=''" "\<not> ascii_whitespace (b64_char s)"
  using b64_char_table assms by (simp_all add: list_all_iff)

lemma strip_trailing_append:
  assumes "\<forall>c\<in>set xs. c \<noteq> p"
  shows "strip_trailing p (xs @ replicate n p) = xs"
proof -
  have "dropWhile (\<lambda>c. c = p) (replicate n p @ rev xs) = dropWhile (\<lambda>c. c = p) (rev xs)"
    by (rule dropWhile_append2) simp
  moreover have "dropWhile (\<lambda>c. c = p) (rev xs) = rev xs"
    using assms by (cases "rev xs") (auto simp: rev_eq_Cons_iff)
  ultimately show ?thesis by (simp add: strip_trailing_def)
qed

lemma remove_padding_append:
  assumes ne: "\<forall>c\<in>set xs. c \<noteq> CHR ''=''" and n: "n \<le> 2"
    and len: "(length xs + n) mod 4 = 0"
  shows "remove_padding (xs @ replicate n (CHR ''='')) = xs"
proof -
  have last_ne: "xs \<noteq> [] \<Longrightarrow> last xs \<noteq> CHR ''=''" using ne by auto
  consider "n = 0" | "n = 1" | "n = 2" using n by linarith
  then show ?thesis
  proof cases
    case 1 then show ?thesis using last_ne by (auto simp: remove_padding_def)
  next
    case 2
    then show ?thesis using last_ne len by (auto simp: remove_padding_def Let_def)
  next
    case 3
    have r: "replicate 2 (CHR ''='') = [CHR ''='', CHR ''='']" by (simp add: numeral_2_eq_2)
    have b: "butlast (xs @ [CHR ''='', CHR ''='']) = xs @ [CHR ''='']"
      by (simp add: butlast_append)
    show ?thesis using 3 len by (simp add: remove_padding_def Let_def r b)
  qed
qed

lemma those_map_Some: "those (map Some xs) = Some xs"
  by (induction xs) simp_all

lemma those_b64_index:
  assumes "\<forall>s\<in>set ss. s < 64"
  shows "those (map b64_index (map b64_char ss)) = Some ss"
proof -
  have "map b64_index (map b64_char ss) = map Some ss"
    using assms by (induction ss) (simp_all add: b64_char_facts)
  then show ?thesis by (simp only: those_map_Some)
qed

lemma atob_encoded:
  assumes lt: "\<forall>s\<in>set ss. s < 64" and n: "n \<le> 2" and len: "(length ss + n) mod 4 = 0"
    and ne1: "length ss mod 4 \<noteq> 1"
  shows "atob (map b64_char ss @ replicate n (CHR ''='')) =
         Inr (map (\<lambda>b. char_of (unat b)) (b64_bytes ss))"
proof -
  have a: "\<forall>c\<in>set (map b64_char ss). \<not> ascii_whitespace c"
    using lt by (simp add: b64_char_facts)
  have e: "\<not> ascii_whitespace (CHR ''='')" by (simp add: ascii_whitespace_def)
  have ws: "filter (\<lambda>c. \<not> ascii_whitespace c) (map b64_char ss @ replicate n (CHR ''=''))
            = map b64_char ss @ replicate n (CHR ''='')"
    using a e by (simp add: filter_id_conv)
  have ne: "\<forall>c\<in>set (map b64_char ss). c \<noteq> CHR ''=''"
    using lt by (simp add: b64_char_facts)
  have rp: "remove_padding (map b64_char ss @ replicate n (CHR ''='')) = map b64_char ss"
    using remove_padding_append[OF ne n] len by simp
  have "atob (map b64_char ss @ replicate n (CHR ''='')) =
        (if length (map b64_char ss) mod 4 = 1 then Inl InvalidCharacterError
         else case those (map b64_index (map b64_char ss)) of
                None \<Rightarrow> Inl InvalidCharacterError
              | Some sextets \<Rightarrow> Inr (map (\<lambda>b. char_of (unat b)) (b64_bytes sextets)))"
    unfolding atob_def ws rp Let_def ..
  then show ?thesis
    unfolding those_b64_index[OF lt] using ne1 by simp
qed

lemma url_chars_back:
  assumes "\<forall>s\<in>set ss. s < 64"
  shows "replace_all (CHR ''_'') (CHR ''/'') (replace_all (CHR ''-'') (CHR ''+'')
           (replace_all (CHR ''/'') (CHR ''_'') (replace_all (CHR ''+'') (CHR ''-'')
              (map b64_char ss)))) = map b64_char ss"
  using assms by (induction ss) (simp_all add: replace_all_def b64_char_facts)

lemma url_chars_ne:
  assumes "\<forall>s\<in>set ss. s < 64"
  shows "\<forall>c\<in>set (replace_all (CHR ''/'') (CHR ''_'') (replace_all (CHR ''+'') (CHR ''-'')
              (map b64_char ss))). c \<noteq> CHR ''=''"
  using assms by (induction ss) (simp_all add: replace_all_def b64_char_facts)

lemma pad_total: "(4 - k mod 4) mod 4 = n \<Longrightarrow> (k + n) mod 4 = (0::nat)"
proof -
  assume h: "(4 - k mod 4) mod 4 = n"
  have "k mod 4 < 4" by simp
  then consider "k mod 4 = 0" | "k mod 4 = 1" | "k mod 4 = 2" | "k mod 4 = 3" by linarith
  then have "(k mod 4 + n) mod 4 = 0"
    using h by cases auto
  then show ?thesis by (simp add: mod_add_left_eq)
qed

lemma replace_all_append:
  "replace_all x y (s @ t) = replace_all x y s @ replace_all x y t"
  by (simp add: replace_all_def)

lemma replace_all_pad:
  "x \<noteq> CHR ''='' \<Longrightarrow> replace_all x y (replicate n (CHR ''='')) = replicate n (CHR ''='')"
  by (simp add: replace_all_def subst_char_def)

lemma unat_byte_mod: "unat (b::byte) mod 256 = unat b"
  using unat_byte_lt[of b] by simp

lemma bytes_chars_bytes:
  "map (\<lambda>c. of_nat (of_char c)) (map (\<lambda>b. char_of (unat b)) (xs::byte list)) = xs"
  by (induction xs) (simp_all add: unat_byte_mod)

text \<open>
  Claim C10. For every byte array \<open>a\<close>, \<^verbatim>\<open>base64urlToUint8Array(uint8ArrayToBase64Url(a))\<close>
  returns \<open>a\<close>: it does not throw, and the bytes are the ones that were encoded. So the
  credential identifier and the public key that \<^verbatim>\<open>/verify-registration\<close> stores as base64url
  text decode back to the bytes the verifier produced.
\<close>

theorem base64url_roundtrip: "base64urlToUint8Array (uint8ArrayToBase64Url a) = Inr a"
proof -
  define ss where "ss = b64_sextets a"
  define n where "n = (3 - length a mod 3) mod 3"
  define url where "url = replace_all (CHR ''/'') (CHR ''_'') (replace_all (CHR ''+'') (CHR ''-'') (map b64_char ss))"
  have lt: "\<forall>s\<in>set ss. s < 64" using b64_sextets_lt by (auto simp: ss_def)
  have url_ne: "\<forall>c\<in>set url. c \<noteq> CHR ''=''"
    unfolding url_def by (rule url_chars_ne[OF lt])
  have "uint8ArrayToBase64Url a = strip_trailing (CHR ''='') (url @ replicate n (CHR ''=''))"
    by (simp add: uint8ArrayToBase64Url_def Buffer_toString_base64_def url_def ss_def n_def
        replace_all_append replace_all_pad)
  then have enc: "uint8ArrayToBase64Url a = url"
    by (simp only: strip_trailing_append[OF url_ne])
  have len_url: "length url = length ss" by (simp add: url_def replace_all_def)
  have pad: "(4 - length url mod 4) mod 4 = n"
    by (simp add: len_url ss_def n_def length_b64_sextets)
  have "n < 3" unfolding n_def by simp
  then have n2: "n \<le> 2" by simp
  have len0: "(length ss + n) mod 4 = 0"
    using pad_total[of "length ss" n] pad len_url by simp
  have unurl: "replace_all (CHR ''_'') (CHR ''/'') (replace_all (CHR ''-'') (CHR ''+'')
                (url @ replicate n (CHR ''=''))) = map b64_char ss @ replicate n (CHR ''='')"
    using url_chars_back[OF lt] by (simp add: url_def replace_all_append replace_all_pad)
  have ne1: "length ss mod 4 \<noteq> 1" unfolding ss_def by (rule length_b64_sextets_ne1)
  have "base64urlToUint8Array url =
        Inr (map (\<lambda>c. of_nat (of_char c)) (map (\<lambda>b. char_of (unat b)) (b64_bytes ss)))"
    by (simp add: base64urlToUint8Array_def pad unurl atob_encoded[OF lt n2 len0 ne1])
  also have "\<dots> = Inr a"
    unfolding bytes_chars_bytes ss_def b64_bytes_sextets ..
  finally show ?thesis by (simp add: enc)
qed

theorem base64url_roundtrip_witness:
  "uint8ArrayToBase64Url [0xfb, 0xff, 0xfe, 1] = ''-__-AQ'' \<and>
   base64urlToUint8Array ''-__-AQ'' = Inr [0xfb, 0xff, 0xfe, 1]"
proof -
  have e: "uint8ArrayToBase64Url [0xfb, 0xff, 0xfe, 1] = ''-__-AQ''" by code_simp
  show ?thesis using base64url_roundtrip[of "[0xfb, 0xff, 0xfe, 1]"] by (simp add: e)
qed

section \<open>The SPKI decode path\<close>

lemma length_Buffer_toString_hex: "length (Buffer_toString_hex bs) = 2 * length bs"
  by (induction bs) (simp_all add: Buffer_toString_hex_def)

lemma slice_nth: "stop \<le> length xs \<Longrightarrow> Uint8Array_slice start stop xs = map ((!) xs) [start..<stop]"
proof (rule nth_equalityI)
  assume le: "stop \<le> length xs"
  show "length (Uint8Array_slice start stop xs) = length (map ((!) xs) [start..<stop])"
    using le by (simp add: Uint8Array_slice_def)
  fix i assume "i < length (Uint8Array_slice start stop xs)"
  then have i: "i < stop - start" using le by (simp add: Uint8Array_slice_def)
  then show "Uint8Array_slice start stop xs ! i = map ((!) xs) [start..<stop] ! i"
    using le by (simp add: Uint8Array_slice_def)
qed

lemma length_slice: "stop \<le> length xs \<Longrightarrow> length (Uint8Array_slice start stop xs) = stop - start"
  by (simp add: Uint8Array_slice_def)

lemma parseP256SpkiBase64_Inr:
  assumes "parseP256SpkiBase64 s = Inr (x, y)"
  shows "\<exists>value p. fromBER (Buffer_from_base64 s) = Ok (Constructed value) \<and> 2 \<le> length value
           \<and> value ! 1 = BitString p \<and> 65 \<le> length p \<and> p ! 0 = 4
           \<and> x = Buffer_toString_hex (Uint8Array_slice 1 33 p) \<and> y = Buffer_toString_hex (Uint8Array_slice 33 65 p)"
  using assms
  by (auto simp: parseP256SpkiBase64_def Let_def split: parse.splits asn1.splits if_splits)

text \<open>
  Claim C3. Let the decoded input parse as a block with at least two children whose second
  child is a BIT STRING with a payload of at least 65 bytes that starts with \<open>0x04\<close>. Then
  \<^verbatim>\<open>parseP256SpkiBase64\<close> returns as \<open>xHex\<close> the hex text of the payload bytes at positions
  1 to 32 and as \<open>yHex\<close> the hex text of the payload bytes at positions 33 to 64.
\<close>

theorem spki_coordinates:
  assumes "fromBER (Buffer_from_base64 pubKeyB64) = Ok (Constructed value)"
    and "2 \<le> length value"
    and "value ! 1 = BitString payload"
    and "65 \<le> length payload"
    and "payload ! 0 = 0x04"
  shows "parseP256SpkiBase64 pubKeyB64 =
         Inr (Buffer_toString_hex (map ((!) payload) [1..<33]),
              Buffer_toString_hex (map ((!) payload) [33..<65]))"
proof -
  have x: "Uint8Array_slice 1 33 payload = map ((!) payload) [1..<33]"
    using assms(4) by (intro slice_nth) simp
  have y: "Uint8Array_slice 33 65 payload = map ((!) payload) [33..<65]"
    using assms(4) by (intro slice_nth) simp
  have "parseP256SpkiBase64 pubKeyB64 =
        Inr (Buffer_toString_hex (Uint8Array_slice 1 33 payload), Buffer_toString_hex (Uint8Array_slice 33 65 payload))"
    using assms by (simp add: parseP256SpkiBase64_def Let_def)
  then show ?thesis by (simp only: x y)
qed

theorem spki_coordinates_witness:
  "fromBER (Buffer_from_base64 example_pubKeyB64) = Ok (Constructed example_spki)
   \<and> 2 \<le> length example_spki
   \<and> example_spki ! 1 = BitString example_point
   \<and> 65 \<le> length example_point
   \<and> example_point ! 0 = 0x04
   \<and> parseP256SpkiBase64 example_pubKeyB64 = Inr (example_xHex, example_yHex)"
proof -
  have h1: "fromBER (Buffer_from_base64 example_pubKeyB64) = Ok (Constructed example_spki)"
    by code_simp
  have h2: "2 \<le> length example_spki" by (simp add: example_spki_def)
  have h3: "example_spki ! 1 = BitString example_point" by (simp add: example_spki_def)
  have h4: "65 \<le> length example_point" by (simp add: example_point_def)
  have h5: "example_point ! 0 = 0x04" by (simp add: example_point_def)
  have x: "Buffer_toString_hex (map ((!) example_point) [1..<33]) = example_xHex"
    by code_simp
  have y: "Buffer_toString_hex (map ((!) example_point) [33..<65]) = example_yHex"
    by code_simp
  show ?thesis
    using spki_coordinates[OF h1 h2 h3 h4 h5] h1 h2 h3 h4 h5 by (simp only: x y simp_thms)
qed

text \<open>
  Claim C4. When the decoded input parses as a block with children, each violated
  structural check makes \<^verbatim>\<open>parseP256SpkiBase64\<close> throw the error of that check, and the
  call returns no coordinates: fewer than two children; a second child that is not a
  BIT STRING; a BIT STRING payload shorter than 65 bytes (the message carries the length);
  a payload that does not start with \<open>0x04\<close>.
\<close>

theorem spki_structural_errors:
  assumes "fromBER (Buffer_from_base64 pubKeyB64) = Ok (Constructed value)"
  shows "(length value < 2 \<longrightarrow>
            parseP256SpkiBase64 pubKeyB64 =
              Inl (Error ''Not a valid SubjectPublicKeyInfo sequence.''))
       \<and> (2 \<le> length value \<and> (\<forall>payload. value ! 1 \<noteq> BitString payload) \<longrightarrow>
            parseP256SpkiBase64 pubKeyB64 =
              Inl (Error ''SPKI does not contain a BitString in the second element.''))
       \<and> (\<forall>payload. 2 \<le> length value \<and> value ! 1 = BitString payload \<and> length payload < 65 \<longrightarrow>
            parseP256SpkiBase64 pubKeyB64 =
              Inl (Error (''Public key bit string is too short. Length = ''
                            @ string_of_nat (length payload))))
       \<and> (\<forall>payload. 2 \<le> length value \<and> value ! 1 = BitString payload \<and> 65 \<le> length payload
              \<and> payload ! 0 \<noteq> 0x04 \<longrightarrow>
            parseP256SpkiBase64 pubKeyB64 =
              Inl (Error ''Expected uncompressed format (0x04) at start of public key data.''))"
  using assms
  by (auto simp: parseP256SpkiBase64_def Let_def split: asn1.splits)

theorem spki_structural_errors_witness:
  "parseP256SpkiBase64 ''MAIFAA=='' =
     Inl (Error ''Not a valid SubjectPublicKeyInfo sequence.'')
   \<and> parseP256SpkiBase64 ''MAQFAAUA'' =
     Inl (Error ''SPKI does not contain a BitString in the second element.'')
   \<and> parseP256SpkiBase64 ''MAcFAAMDAAQB'' =
     Inl (Error ''Public key bit string is too short. Length = 2'')
   \<and> parseP256SpkiBase64 compressed_pubKeyB64 =
     Inl (Error ''Expected uncompressed format (0x04) at start of public key data.'')"
proof -
  have h1: "fromBER (Buffer_from_base64 ''MAIFAA=='') = Ok (Constructed [Primitive 5 []])"
    by code_simp
  have h2: "fromBER (Buffer_from_base64 ''MAQFAAUA'')
            = Ok (Constructed [Primitive 5 [], Primitive 5 []])"
    by code_simp
  have h3: "fromBER (Buffer_from_base64 ''MAcFAAMDAAQB'')
            = Ok (Constructed [Primitive 5 [], BitString [4, 1]])"
    by code_simp
  have h4: "fromBER (Buffer_from_base64 compressed_pubKeyB64)
            = Ok (Constructed [hd example_spki, BitString (2 # tl example_point)])"
    by code_simp
  have n: "string_of_nat 2 = ''2''" by code_simp
  have l: "65 \<le> length (2 # tl example_point)" by (simp add: example_point_def)
  have c1: "parseP256SpkiBase64 ''MAIFAA=='' =
     Inl (Error ''Not a valid SubjectPublicKeyInfo sequence.'')"
    using spki_structural_errors[OF h1] by simp
  have c2: "parseP256SpkiBase64 ''MAQFAAUA'' =
     Inl (Error ''SPKI does not contain a BitString in the second element.'')"
    using spki_structural_errors[OF h2] by simp
  have c3: "parseP256SpkiBase64 ''MAcFAAMDAAQB'' =
     Inl (Error ''Public key bit string is too short. Length = 2'')"
    using spki_structural_errors[OF h3] n by simp
  have c4: "parseP256SpkiBase64 compressed_pubKeyB64 =
     Inl (Error ''Expected uncompressed format (0x04) at start of public key data.'')"
    using spki_structural_errors[OF h4] l by simp
  show ?thesis using c1 c2 c3 c4 by simp
qed

section \<open>The COSE decode path\<close>

lemma cbor_argument_length:
  "cbor_argument ai bs = Ok (n, rest) \<Longrightarrow> length rest \<le> length bs"
  by (auto simp: cbor_argument_def Let_def split: if_splits)

lemma cbor_consumes:
  "cbor_item fuel bs = Ok (v, r) \<Longrightarrow> length r < length bs"
  "cbor_pairs fuel n bs = Ok (es, r) \<Longrightarrow> length r \<le> length bs"
proof (induction fuel bs and fuel n bs arbitrary: v r and es r rule: cbor_item_cbor_pairs.induct)
  case (1 bs)
  then show ?case by simp
next
  case (2 fuel)
  then show ?case by simp
next
  case (3 fuel b bs)
  show ?case
  proof (cases "unat b div 32 = 7")
    case True
    then show ?thesis using "3.prems" by (auto simp: Let_def split: if_splits)
  next
    case False
    then obtain n rest where arg: "cbor_argument (unat b mod 32) bs = Ok (n, rest)"
      using "3.prems" by (auto simp: Let_def split: parse.splits)
    have le: "length rest \<le> length bs" using arg by (rule cbor_argument_length)
    show ?thesis
    proof (cases "unat b div 32 = 5")
      case True
      then obtain entries rest' where p: "cbor_pairs fuel n rest = Ok (entries, rest')" and r: "r = rest'"
        using "3.prems" arg by (auto simp: Let_def split: parse.splits if_splits)
      have "length rest' \<le> length rest"
        using "3.IH"[of "unat b div 32" "unat b mod 32" "(n, rest)" n rest entries rest']
          arg p True by simp
      then show ?thesis using le r by simp
    next
      case False
      then show ?thesis using "3.prems" arg le \<open>unat b div 32 \<noteq> 7\<close>
        by (auto simp: Let_def split: if_splits)
    qed
  qed
next
  case (4 fuel bs)
  then show ?case by simp
next
  case (5 fuel n bs)
  from "5.prems" obtain k rest where k: "cbor_item fuel bs = Ok (k, rest)"
    by (auto split: parse.splits)
  from "5.prems" k obtain v rest' where v: "cbor_item fuel rest = Ok (v, rest')"
    by (auto split: parse.splits)
  from "5.prems" k v obtain entries where e: "cbor_pairs fuel n rest' = Ok (entries, r)"
    by (auto split: parse.splits)
  have "length rest < length bs" using "5.IH"(1)[OF k] .
  moreover have "length rest' < length rest" using "5.IH"(2)[OF k refl v] .
  moreover have "length r \<le> length rest'" using "5.IH"(3)[OF k refl v refl e] .
  ultimately show ?case by simp
qed


lemma cbor_fuel:
  "length bs < fuel \<Longrightarrow> length bs < fuel' \<Longrightarrow> cbor_item fuel bs = cbor_item fuel' bs"
  "length bs < fuel \<Longrightarrow> length bs < fuel' \<Longrightarrow> cbor_pairs fuel n bs = cbor_pairs fuel' n bs"
proof (induction fuel bs and fuel n bs arbitrary: fuel' and fuel'
       rule: cbor_item_cbor_pairs.induct)
  case (1 bs)
  then show ?case by simp
next
  case (2 fuel)
  then obtain f where "fuel' = Suc f" by (cases fuel') auto
  then show ?case by simp
next
  case (3 fuel b bs)
  from "3.prems" obtain f where f: "fuel' = Suc f" and lf: "length bs < f"
    by (cases fuel') auto
  have lfuel: "length bs < fuel" using "3.prems" by simp
  have pairs: "cbor_pairs fuel n rest = cbor_pairs f n rest"
    if "unat b div 32 \<noteq> 7" "cbor_argument (unat b mod 32) bs = Ok (n, rest)"
       "unat b div 32 = 5" for n rest
  proof -
    have "length rest \<le> length bs" using that(2) by (rule cbor_argument_length)
    then have "length rest < fuel" "length rest < f" using lfuel lf by simp_all
    then show ?thesis
      using "3.IH"[of "unat b div 32" "unat b mod 32" "(n, rest)" n rest f] that by simp
  qed
  show ?case
    unfolding f cbor_item.simps Let_def
    by (auto split: parse.splits simp: pairs)
next
  case (4 fuel bs)
  then show ?case by simp
next
  case (5 fuel n bs)
  have i1: "cbor_item fuel bs = cbor_item fuel' bs"
    by (rule "5.IH"(1)[OF "5.prems"])
  show ?case
  proof (cases "cbor_item fuel bs")
    case Fail
    moreover from Fail i1 have "cbor_item fuel' bs = Fail" by simp
    ultimately show ?thesis by simp
  next
    case Outside
    moreover from Outside i1 have "cbor_item fuel' bs = Outside" by simp
    ultimately show ?thesis by simp
  next
    case (Ok kr)
    obtain k rest where kr: "kr = (k, rest)" by (cases kr)
    have a1: "cbor_item fuel bs = Ok (k, rest)" using Ok kr by simp
    have b1: "cbor_item fuel' bs = Ok (k, rest)" using a1 i1 by simp
    have l1: "length rest < length bs" using a1 by (rule cbor_consumes(1))
    note ok1 = Ok
    have lf1: "length rest < fuel" "length rest < fuel'" using l1 "5.prems" by simp_all
    have i2: "cbor_item fuel rest = cbor_item fuel' rest"
      by (rule "5.IH"(2)[OF ok1 kr[symmetric] lf1])
    show ?thesis
    proof (cases "cbor_item fuel rest")
      case Fail
      moreover from Fail i2 have "cbor_item fuel' rest = Fail" by simp
      ultimately show ?thesis using a1 b1 by simp
    next
      case Outside
      moreover from Outside i2 have "cbor_item fuel' rest = Outside" by simp
      ultimately show ?thesis using a1 b1 by simp
    next
      case (Ok vr)
      obtain v rest' where vr: "vr = (v, rest')" by (cases vr)
      have a2: "cbor_item fuel rest = Ok (v, rest')" using Ok vr by simp
      have b2: "cbor_item fuel' rest = Ok (v, rest')" using a2 i2 by simp
      have l2: "length rest' < length rest" using a2 by (rule cbor_consumes(1))
      have lf2: "length rest' < fuel" "length rest' < fuel'" using l2 lf1 by simp_all
      have i3: "cbor_pairs fuel n rest' = cbor_pairs fuel' n rest'"
        by (rule "5.IH"(3)[OF ok1 kr[symmetric] Ok vr[symmetric] lf2])
      show ?thesis
        by (simp add: a1 b1 a2 b2 i3)
    qed
  qed
qed

text \<open>
  The fuel of the CBOR reader does not cut a reading short: with any fuel above the input
  length the reader answers as \<open>cbor_decodeFirstSync\<close> makes it answer.
\<close>

lemma cbor_decodeFirstSync_fuel:
  "length bs < fuel \<Longrightarrow> cbor_item fuel bs = cbor_item (Suc (length bs)) bs"
  by (rule cbor_fuel(1)) simp_all

lemma takeWhile_pad:
  "takeWhile (\<lambda>c. c \<noteq> CHR ''='') (xs @ replicate n (CHR ''=''))
   = takeWhile (\<lambda>c. c \<noteq> CHR ''='') xs"
proof (cases "\<forall>x\<in>set xs. x \<noteq> CHR ''=''")
  case True
  have e: "takeWhile (\<lambda>c. c \<noteq> CHR ''='') (replicate n (CHR ''='')) = []"
    by (cases n) simp_all
  have w: "takeWhile (\<lambda>c. c \<noteq> CHR ''='') xs = xs"
    using True takeWhile_eq_all_conv[of "\<lambda>c. c \<noteq> CHR ''=''" xs] by blast
  have "takeWhile (\<lambda>c. c \<noteq> CHR ''='') (xs @ replicate n (CHR ''=''))
        = xs @ takeWhile (\<lambda>c. c \<noteq> CHR ''='') (replicate n (CHR ''=''))"
    using True by (intro takeWhile_append2) blast
  then show ?thesis by (simp only: e w append_Nil2)
next
  case False
  then show ?thesis by (auto simp: takeWhile_append1)
qed

lemma takeWhile_replace_all:
  assumes "old \<noteq> CHR ''=''" "new \<noteq> CHR ''=''"
  shows "takeWhile (\<lambda>c. c \<noteq> CHR ''='') (replace_all old new xs)
         = replace_all old new (takeWhile (\<lambda>c. c \<noteq> CHR ''='') xs)"
  using assms by (induction xs) (auto simp: replace_all_def subst_char_def)

lemma b64url_index_std:
  "b64url_index (CHR ''+'') = b64url_index (CHR ''-'')"
  "b64url_index (CHR ''/'') = b64url_index (CHR ''_'')"
  by code_simp+

lemma map_filter_url:
  "List.map_filter b64url_index
     (replace_all (CHR ''_'') (CHR ''/'') (replace_all (CHR ''-'') (CHR ''+'') xs))
   = List.map_filter b64url_index xs"
proof (induction xs)
  case Nil
  show ?case by (simp add: replace_all_def)
next
  case (Cons c cs)
  have c: "b64url_index (subst_char (CHR ''_'') (CHR ''/'') (subst_char (CHR ''-'') (CHR ''+'') c))
           = b64url_index c"
    using b64url_index_std by (simp add: subst_char_def)
  from Cons show ?case
    by (simp add: replace_all_def List.map_filter_simps c split: option.split)
qed

lemma Buffer_from_base64_padded:
  "Buffer_from_base64
     (replace_all (CHR ''_'') (CHR ''/'') (replace_all (CHR ''-'') (CHR ''+'') s)
        @ replicate n (CHR ''=''))
   = Buffer_from_base64 s"
  by (simp add: Buffer_from_base64_def takeWhile_pad takeWhile_replace_all map_filter_url)

lemma Buffer_from_base64_url:
  "Buffer_from_base64
     (replace_all (CHR ''_'') (CHR ''/'') (replace_all (CHR ''-'') (CHR ''+'') s))
   = Buffer_from_base64 s"
  using Buffer_from_base64_padded[of s 0] by simp

lemma parseCoseP256Key_decoded:
  "parseCoseP256Key s =
     (case cbor_decodeFirstSync (Buffer_from_base64 s) of
        Fail \<Rightarrow> Inl (Error ''Insufficient data'')
      | Outside \<Rightarrow> Inl Unmodelled
      | Ok coseStruct \<Rightarrow>
          (case coseStruct of
             JMap entries \<Rightarrow>
               if \<not> truthy (Map_get entries (JNumber (- 2)))
                  \<or> \<not> truthy (Map_get entries (JNumber (- 3)))
               then Inl (Error ''COSE key missing x or y'')
               else
                 (case Buffer_from (Map_get entries (JNumber (- 2))) of
                    Inl err \<Rightarrow> Inl err
                  | Inr xBytes \<Rightarrow>
                      (case Buffer_from (Map_get entries (JNumber (- 3))) of
                         Inl err \<Rightarrow> Inl err
                       | Inr yBytes \<Rightarrow>
                           Inr (Buffer_toString_hex xBytes, Buffer_toString_hex yBytes)))
           | _ \<Rightarrow> Inl (Error ''COSE public key is not a CBOR map?'')))"
  unfolding parseCoseP256Key_def Let_def
  by (simp only: Buffer_from_base64_padded Buffer_from_base64_url
        if_distrib[of Buffer_from_base64] if_cancel)

lemma Map_get_absent: "k \<notin> fst ` set entries \<Longrightarrow> Map_get entries k = JUndefined"
proof -
  assume "k \<notin> fst ` set entries"
  then have "map_of (rev entries) k = None" by (simp add: map_of_eq_None_iff)
  then show ?thesis by (simp add: Map_get_def)
qed

lemma parseCoseP256Key_Inr:
  assumes "parseCoseP256Key s = Inr (x, y)"
  shows "\<exists>entries xBytes yBytes.
           cbor_decodeFirstSync (Buffer_from_base64 s) = Ok (JMap entries)
         \<and> Buffer_from (Map_get entries (JNumber (- 2))) = Inr xBytes
         \<and> Buffer_from (Map_get entries (JNumber (- 3))) = Inr yBytes
         \<and> x = Buffer_toString_hex xBytes \<and> y = Buffer_toString_hex yBytes"
  using assms unfolding parseCoseP256Key_decoded
  by (auto split: parse.splits js_value.splits if_splits sum.splits)

text \<open>
  Claim C5, as amended. When the decoded input is a CBOR map read as a \<^verbatim>\<open>Map\<close> whose
  entries at the labels \<open>-2\<close> and \<open>-3\<close> are byte strings, \<^verbatim>\<open>parseCoseP256Key\<close> returns the hex
  text of these two byte strings as \<open>xHex\<close> and \<open>yHex\<close>. When the map has no entry at one
  of the two labels it throws \<^verbatim>\<open>COSE key missing x or y\<close>, and when the decoded value is
  not a \<^verbatim>\<open>Map\<close> it throws \<^verbatim>\<open>COSE public key is not a CBOR map?\<close>.
\<close>

theorem cose_coordinates_of_map:
  "(cbor_decodeFirstSync (Buffer_from_base64 coseB64Url) = Ok (JMap entries)
      \<and> Map_get entries (JNumber (- 2)) = JBuffer x
      \<and> Map_get entries (JNumber (- 3)) = JBuffer y \<longrightarrow>
    parseCoseP256Key coseB64Url = Inr (Buffer_toString_hex x, Buffer_toString_hex y))
 \<and> (cbor_decodeFirstSync (Buffer_from_base64 coseB64Url) = Ok (JMap entries)
      \<and> (JNumber (- 2) \<notin> fst ` set entries \<or> JNumber (- 3) \<notin> fst ` set entries) \<longrightarrow>
    parseCoseP256Key coseB64Url = Inl (Error ''COSE key missing x or y''))
 \<and> (cbor_decodeFirstSync (Buffer_from_base64 coseB64Url) = Ok v
      \<and> (\<forall>entries'. v \<noteq> JMap entries') \<longrightarrow>
    parseCoseP256Key coseB64Url = Inl (Error ''COSE public key is not a CBOR map?''))"
proof (intro conjI impI)
  assume "cbor_decodeFirstSync (Buffer_from_base64 coseB64Url) = Ok (JMap entries)
      \<and> Map_get entries (JNumber (- 2)) = JBuffer x
      \<and> Map_get entries (JNumber (- 3)) = JBuffer y"
  then show "parseCoseP256Key coseB64Url = Inr (Buffer_toString_hex x, Buffer_toString_hex y)"
    by (simp add: parseCoseP256Key_decoded)
next
  assume h: "cbor_decodeFirstSync (Buffer_from_base64 coseB64Url) = Ok (JMap entries)
      \<and> (JNumber (- 2) \<notin> fst ` set entries \<or> JNumber (- 3) \<notin> fst ` set entries)"
  then have "Map_get entries (JNumber (- 2)) = JUndefined \<or> Map_get entries (JNumber (- 3)) = JUndefined"
    using Map_get_absent by blast
  then have "\<not> truthy (Map_get entries (JNumber (- 2))) \<or> \<not> truthy (Map_get entries (JNumber (- 3)))"
    by auto
  then show "parseCoseP256Key coseB64Url = Inl (Error ''COSE key missing x or y'')"
    using h by (simp add: parseCoseP256Key_decoded Let_def)
next
  assume "cbor_decodeFirstSync (Buffer_from_base64 coseB64Url) = Ok v \<and> (\<forall>entries'. v \<noteq> JMap entries')"
  then show "parseCoseP256Key coseB64Url = Inl (Error ''COSE public key is not a CBOR map?'')"
    by (cases v) (simp_all add: parseCoseP256Key_decoded)
qed


theorem cose_coordinates_of_map_witness:
  "parseCoseP256Key short_coseKey = Inr (''01'', ''02'')
   \<and> parseCoseP256Key okp_coseKey = Inl (Error ''COSE key missing x or y'')
   \<and> parseCoseP256Key ''AQ'' = Inl (Error ''COSE public key is not a CBOR map?'')"
proof -
  have h1: "cbor_decodeFirstSync (Buffer_from_base64 short_coseKey)
            = Ok (JMap [(JNumber (- 2), JBuffer [1]), (JNumber (- 3), JBuffer [2])])"
    by code_simp
  have g1: "Map_get [(JNumber (- 2), JBuffer [1]), (JNumber (- 3), JBuffer [2])] (JNumber (- 2))
            = JBuffer [1]"
    by (simp add: Map_get_def)
  have g2: "Map_get [(JNumber (- 2), JBuffer [1]), (JNumber (- 3), JBuffer [2])] (JNumber (- 3))
            = JBuffer [2]"
    by (simp add: Map_get_def)
  have x1: "Buffer_toString_hex [1] = ''01''" by code_simp
  have x2: "Buffer_toString_hex [2] = ''02''" by code_simp
  have h2: "cbor_decodeFirstSync (Buffer_from_base64 okp_coseKey)
            = Ok (JMap [(JNumber 1, JNumber 1), (JNumber 3, JNumber (- 8)),
                        (JNumber (- 1), JNumber 6), (JNumber (- 2), JBuffer [1, 2])])"
    by code_simp
  have h3: "cbor_decodeFirstSync (Buffer_from_base64 ''AQ'') = Ok (JNumber 1)"
    by code_simp
  have c1: "parseCoseP256Key short_coseKey = Inr (''01'', ''02'')"
    using cose_coordinates_of_map[where coseB64Url = short_coseKey
        and entries = "[(JNumber (- 2), JBuffer [1]), (JNumber (- 3), JBuffer [2])]"
        and x = "[1]" and y = "[2]"] h1 g1 g2
    by (simp add: x1 x2)
  have c2: "parseCoseP256Key okp_coseKey = Inl (Error ''COSE key missing x or y'')"
    using cose_coordinates_of_map[where coseB64Url = okp_coseKey
        and entries = "[(JNumber 1, JNumber 1), (JNumber 3, JNumber (- 8)),
                        (JNumber (- 1), JNumber 6), (JNumber (- 2), JBuffer [1, 2])]"] h2
    by simp
  have c3: "parseCoseP256Key ''AQ'' = Inl (Error ''COSE public key is not a CBOR map?'')"
    using cose_coordinates_of_map[where coseB64Url = "''AQ''" and v = "JNumber 1"] h3
    by simp
  show ?thesis using c1 c2 c3 by simp
qed

text \<open>
  Claim C5 as stated fails: \<open>zero_coseKey\<close> decodes to a map that has entries at both
  labels, each the integer \<open>0\<close>, and \<^verbatim>\<open>parseCoseP256Key\<close> throws because the test
  \<^verbatim>\<open>!xBuf || !yBuf\<close> takes a falsy entry for a missing one.
\<close>

theorem cose_falsy_entries_counterexample:
  "cbor_decodeFirstSync (Buffer_from_base64 zero_coseKey)
     = Ok (JMap [(JNumber (- 2), JNumber 0), (JNumber (- 3), JNumber 0)])
   \<and> parseCoseP256Key zero_coseKey = Inl (Error ''COSE key missing x or y'')"
  by code_simp

text \<open>
  Claim C2, as amended. Every input that \<^verbatim>\<open>parseP256SpkiBase64\<close> accepts yields an \<open>xHex\<close>
  and a \<open>yHex\<close> that are each the hex text of exactly 32 bytes, 64 characters. Every input
  that \<^verbatim>\<open>parseCoseP256Key\<close> accepts decodes to a \<^verbatim>\<open>Map\<close>, and its \<open>xHex\<close> and \<open>yHex\<close> are the
  hex text of the bytes of the entries at the labels \<open>-2\<close> and \<open>-3\<close> (the bytes that
  \<^verbatim>\<open>Buffer.from\<close> gives for the entry, which for a byte string are the entry itself), two
  characters per byte, of whatever length the entry has: 64 characters exactly when the
  entry has 32 bytes.
\<close>

theorem decoded_coordinate_lengths:
  "(parseP256SpkiBase64 pubKeyB64 = Inr (xHex, yHex) \<longrightarrow>
      length xHex = 64 \<and> length yHex = 64
      \<and> (\<exists>xBytes yBytes. length xBytes = 32 \<and> length yBytes = 32
            \<and> xHex = Buffer_toString_hex xBytes \<and> yHex = Buffer_toString_hex yBytes))
 \<and> (parseCoseP256Key coseB64Url = Inr (xHex', yHex') \<longrightarrow>
      (\<exists>entries xBytes yBytes.
            cbor_decodeFirstSync (Buffer_from_base64 coseB64Url) = Ok (JMap entries)
          \<and> Buffer_from (Map_get entries (JNumber (- 2))) = Inr xBytes
          \<and> Buffer_from (Map_get entries (JNumber (- 3))) = Inr yBytes
          \<and> xHex' = Buffer_toString_hex xBytes \<and> yHex' = Buffer_toString_hex yBytes
          \<and> length xHex' = 2 * length xBytes \<and> length yHex' = 2 * length yBytes
          \<and> (length xHex' = 64 \<longleftrightarrow> length xBytes = 32)
          \<and> (length yHex' = 64 \<longleftrightarrow> length yBytes = 32)))"
proof (intro conjI impI)
  assume "parseP256SpkiBase64 pubKeyB64 = Inr (xHex, yHex)"
  then obtain p where p: "65 \<le> length p"
    and x: "xHex = Buffer_toString_hex (Uint8Array_slice 1 33 p)"
    and y: "yHex = Buffer_toString_hex (Uint8Array_slice 33 65 p)"
    using parseP256SpkiBase64_Inr by blast
  have p33: "33 \<le> length p" using p by simp
  have lx: "length (Uint8Array_slice 1 33 p) = 32" using length_slice[OF p33, of 1] by simp
  have ly: "length (Uint8Array_slice 33 65 p) = 32" using length_slice[OF p, of 33] by simp
  show "length xHex = 64" unfolding x length_Buffer_toString_hex lx by simp
  show "length yHex = 64" unfolding y length_Buffer_toString_hex ly by simp
  show "\<exists>xBytes yBytes. length xBytes = 32 \<and> length yBytes = 32
            \<and> xHex = Buffer_toString_hex xBytes \<and> yHex = Buffer_toString_hex yBytes"
    using lx ly x y by blast
next
  assume "parseCoseP256Key coseB64Url = Inr (xHex', yHex')"
  then obtain entries xBytes yBytes where
      d: "cbor_decodeFirstSync (Buffer_from_base64 coseB64Url) = Ok (JMap entries)"
    and bx: "Buffer_from (Map_get entries (JNumber (- 2))) = Inr xBytes"
    and by': "Buffer_from (Map_get entries (JNumber (- 3))) = Inr yBytes"
    and x: "xHex' = Buffer_toString_hex xBytes"
    and y: "yHex' = Buffer_toString_hex yBytes"
    using parseCoseP256Key_Inr by blast
  have lx: "length xHex' = 2 * length xBytes" by (simp add: x length_Buffer_toString_hex)
  have ly: "length yHex' = 2 * length yBytes" by (simp add: y length_Buffer_toString_hex)
  have ex: "length xHex' = 64 \<longleftrightarrow> length xBytes = 32" using lx by auto
  have ey: "length yHex' = 64 \<longleftrightarrow> length yBytes = 32" using ly by auto
  show "\<exists>entries xBytes yBytes.
            cbor_decodeFirstSync (Buffer_from_base64 coseB64Url) = Ok (JMap entries)
          \<and> Buffer_from (Map_get entries (JNumber (- 2))) = Inr xBytes
          \<and> Buffer_from (Map_get entries (JNumber (- 3))) = Inr yBytes
          \<and> xHex' = Buffer_toString_hex xBytes \<and> yHex' = Buffer_toString_hex yBytes
          \<and> length xHex' = 2 * length xBytes \<and> length yHex' = 2 * length yBytes
          \<and> (length xHex' = 64 \<longleftrightarrow> length xBytes = 32)
          \<and> (length yHex' = 64 \<longleftrightarrow> length yBytes = 32)"
    using d bx by' x y lx ly ex ey by blast
qed

theorem decoded_coordinate_lengths_witness:
  "parseP256SpkiBase64 example_pubKeyB64 = Inr (example_xHex, example_yHex)
   \<and> length example_xHex = 64 \<and> length example_yHex = 64
   \<and> parseCoseP256Key example_coseKey = Inr (example_xHex, example_yHex)"
proof -
  have h1: "parseP256SpkiBase64 example_pubKeyB64 = Inr (example_xHex, example_yHex)"
    by code_simp
  have h2: "parseCoseP256Key example_coseKey = Inr (example_xHex, example_yHex)"
    by code_simp
  have "length example_xHex = 64 \<and> length example_yHex = 64"
    using decoded_coordinate_lengths[of example_pubKeyB64 example_xHex example_yHex
        example_coseKey example_xHex example_yHex] h1
    by blast
  then show ?thesis using h1 h2 by simp
qed

text \<open>
  Claim C2 as stated fails on the COSE path, which has no length check: \<open>short_coseKey\<close>
  is accepted and yields coordinates of one byte, two hex characters, each.
\<close>

theorem cose_short_coordinates_counterexample:
  "parseCoseP256Key short_coseKey = Inr (''01'', ''02'') \<and> length ''01'' \<noteq> 64"
  by code_simp

section \<open>The handlers\<close>

lemma verify_registration_rejected:
  assumes "registrationChallengeMap db userId = Some expectedChallenge"
    and "registration_rejected (vr \<lparr>reg_response = credential,
            reg_expectedChallenge = expectedChallenge, reg_expectedRPID = rpID,
            reg_expectedOrigin = ORIGIN, requireUserVerification = True\<rparr>)"
  shows "\<exists>msg code. verify_registration vr db userId credential = (Json_error msg code, db)"
  using assms
  by (auto simp: verify_registration_def registration_rejected_def
           split: option.splits sum.splits)

lemma verify_login_cases:
  "(\<exists>msg. verify_login va db credential challenge = (Json_error msg 400, db))
   \<or> (\<exists>userId userRecord storedID storedKey verification info.
         loginChallengeMap db challenge \<noteq> None
       \<and> userHandle credential = Some userId \<and> userId \<noteq> []
       \<and> userDB db userId = Some userRecord
       \<and> base64urlToUint8Array (credentialID (credentials userRecord)) = Inr storedID
       \<and> base64urlToUint8Array (publicKey (credentials userRecord)) = Inr storedKey
       \<and> va \<lparr>auth_response = credential, auth_expectedChallenge = challenge,
              auth_expectedRPID = rpID, auth_expectedOrigin = ORIGIN,
              authenticator =
                \<lparr>spread_credential = credential, auth_credentialID = storedID,
                 auth_credentialPublicKey = storedKey,
                 auth_counter = counter (credentials userRecord)\<rparr>\<rparr> = Inr verification
       \<and> auth_verified verification \<and> authenticationInfo verification = Some info
       \<and> verify_login va db credential challenge =
           (case parseCoseP256Key (publicKey (credentials userRecord)) of
              Inl err \<Rightarrow> Json_error (message err) 400
            | Inr (xHex, yHex) \<Rightarrow> Json_login_ok xHex yHex,
            db\<lparr>userDB := (userDB db)(userId \<mapsto> userRecord\<lparr>credentials :=
                    (credentials userRecord)\<lparr>counter := newCounter info\<rparr>\<rparr>),
               loginChallengeMap := (loginChallengeMap db)(challenge := None)\<rparr>))"
  unfolding verify_login_def Let_def
  by (auto split: option.splits sum.splits)

lemma verify_registration_cases:
  "(\<exists>msg code. verify_registration vr db userId credential = (Json_error msg code, db))
   \<or> (\<exists>expectedChallenge userRecord verification info.
        registrationChallengeMap db userId = Some expectedChallenge \<and> expectedChallenge \<noteq> []
      \<and> userDB db userId = Some userRecord
      \<and> vr \<lparr>reg_response = credential, reg_expectedChallenge = expectedChallenge,
             reg_expectedRPID = rpID, reg_expectedOrigin = ORIGIN,
             requireUserVerification = True\<rparr> = Inr verification
      \<and> reg_verified verification \<and> registrationInfo verification = Some info
      \<and> verify_registration vr db userId credential =
          (Json_registration_ok,
           db\<lparr>userDB := (userDB db)(userId \<mapsto>
                 \<lparr>username = username userRecord,
                  credentials =
                    \<lparr>credentialID = uint8ArrayToBase64Url (info_credentialID info),
                     publicKey = uint8ArrayToBase64Url (info_credentialPublicKey info),
                     counter = info_counter info\<rparr>\<rparr>),
              registrationChallengeMap := (registrationChallengeMap db)(userId := None)\<rparr>))"
  by (auto simp: verify_registration_def split: option.splits sum.splits)


text \<open>
  Claim C1, as amended. A call of \<^verbatim>\<open>/verify-registration\<close> or \<^verbatim>\<open>/verify-login\<close> that finds a
  matching challenge and then fails verification (the verifier, called with the options
  the handler builds from the request and the stored record, throws or does not report a
  verified result) answers with an error and leaves the whole server state as it was:
  the user and credential store is unchanged, and the challenge is still in its map.
\<close>

theorem failed_verification_keeps_state:
  "(registrationChallengeMap db userId = Some expectedChallenge
      \<and> registration_rejected (vr \<lparr>reg_response = attestation,
            reg_expectedChallenge = expectedChallenge, reg_expectedRPID = rpID,
            reg_expectedOrigin = ORIGIN, requireUserVerification = True\<rparr>) \<longrightarrow>
    (\<exists>msg code. verify_registration vr db userId attestation = (Json_error msg code, db)))
 \<and> (loginChallengeMap db challenge \<noteq> None
      \<and> userHandle credential = Some loginId \<and> loginId \<noteq> []
      \<and> userDB db loginId = Some userRecord
      \<and> base64urlToUint8Array (credentialID (credentials userRecord)) = Inr storedID
      \<and> base64urlToUint8Array (publicKey (credentials userRecord)) = Inr storedKey
      \<and> authentication_rejected (va \<lparr>auth_response = credential,
            auth_expectedChallenge = challenge, auth_expectedRPID = rpID,
            auth_expectedOrigin = ORIGIN,
            authenticator =
              \<lparr>spread_credential = credential, auth_credentialID = storedID,
               auth_credentialPublicKey = storedKey,
               auth_counter = counter (credentials userRecord)\<rparr>\<rparr>) \<longrightarrow>
    (\<exists>msg. verify_login va db credential challenge = (Json_error msg 400, db)))"
proof (intro conjI impI)
  assume "registrationChallengeMap db userId = Some expectedChallenge
      \<and> registration_rejected (vr \<lparr>reg_response = attestation,
            reg_expectedChallenge = expectedChallenge, reg_expectedRPID = rpID,
            reg_expectedOrigin = ORIGIN, requireUserVerification = True\<rparr>)"
  then show "\<exists>msg code. verify_registration vr db userId attestation = (Json_error msg code, db)"
    using verify_registration_rejected[of db userId expectedChallenge vr attestation] by blast
next
  assume h: "loginChallengeMap db challenge \<noteq> None
      \<and> userHandle credential = Some loginId \<and> loginId \<noteq> []
      \<and> userDB db loginId = Some userRecord
      \<and> base64urlToUint8Array (credentialID (credentials userRecord)) = Inr storedID
      \<and> base64urlToUint8Array (publicKey (credentials userRecord)) = Inr storedKey
      \<and> authentication_rejected (va \<lparr>auth_response = credential,
            auth_expectedChallenge = challenge, auth_expectedRPID = rpID,
            auth_expectedOrigin = ORIGIN,
            authenticator =
              \<lparr>spread_credential = credential, auth_credentialID = storedID,
               auth_credentialPublicKey = storedKey,
               auth_counter = counter (credentials userRecord)\<rparr>\<rparr>)"
  from verify_login_cases[of va db credential challenge]
  show "\<exists>msg. verify_login va db credential challenge = (Json_error msg 400, db)"
  proof
    assume "\<exists>msg. verify_login va db credential challenge = (Json_error msg 400, db)"
    then show ?thesis .
  next
    assume "\<exists>userId userRecord storedID storedKey verification info.
         loginChallengeMap db challenge \<noteq> None
       \<and> userHandle credential = Some userId \<and> userId \<noteq> []
       \<and> userDB db userId = Some userRecord
       \<and> base64urlToUint8Array (credentialID (credentials userRecord)) = Inr storedID
       \<and> base64urlToUint8Array (publicKey (credentials userRecord)) = Inr storedKey
       \<and> va \<lparr>auth_response = credential, auth_expectedChallenge = challenge,
              auth_expectedRPID = rpID, auth_expectedOrigin = ORIGIN,
              authenticator =
                \<lparr>spread_credential = credential, auth_credentialID = storedID,
                 auth_credentialPublicKey = storedKey,
                 auth_counter = counter (credentials userRecord)\<rparr>\<rparr> = Inr verification
       \<and> auth_verified verification \<and> authenticationInfo verification = Some info
       \<and> verify_login va db credential challenge =
           (case parseCoseP256Key (publicKey (credentials userRecord)) of
              Inl err \<Rightarrow> Json_error (message err) 400
            | Inr (xHex, yHex) \<Rightarrow> Json_login_ok xHex yHex,
            db\<lparr>userDB := (userDB db)(userId \<mapsto> userRecord\<lparr>credentials :=
                    (credentials userRecord)\<lparr>counter := newCounter info\<rparr>\<rparr>),
               loginChallengeMap := (loginChallengeMap db)(challenge := None)\<rparr>)"
    then obtain verification info where
      "va \<lparr>auth_response = credential, auth_expectedChallenge = challenge,
              auth_expectedRPID = rpID, auth_expectedOrigin = ORIGIN,
              authenticator =
                \<lparr>spread_credential = credential, auth_credentialID = storedID,
                 auth_credentialPublicKey = storedKey,
                 auth_counter = counter (credentials userRecord)\<rparr>\<rparr> = Inr verification"
      "auth_verified verification" "authenticationInfo verification = Some info"
      using h by auto
    with h have False by (simp add: authentication_rejected_def)
    then show ?thesis ..
  qed
qed

theorem failed_verification_keeps_state_witness:
  "registrationChallengeMap (example_db short_coseKey) ''user-2'' = Some ''reg-challenge''
   \<and> loginChallengeMap (example_db short_coseKey) ''login-challenge'' = Some True
   \<and> snd (verify_registration reject_registration (example_db short_coseKey) ''user-2'' ())
       = example_db short_coseKey
   \<and> snd (verify_login (verifyAuthenticationResponse assertion_accepted (reports 5))
             (example_db short_coseKey) example_assertion ''login-challenge'')
       = example_db short_coseKey
   \<and> snd (verify_login reject_authentication (example_db short_coseKey)
             example_assertion ''login-challenge'')
       = example_db short_coseKey"
proof -
  have h1: "registrationChallengeMap (example_db short_coseKey) ''user-2''
            = Some ''reg-challenge''"
    by (simp add: example_db_def)
  have h2: "registration_rejected (reject_registration \<lparr>reg_response = (),
              reg_expectedChallenge = ''reg-challenge'', reg_expectedRPID = rpID,
              reg_expectedOrigin = ORIGIN, requireUserVerification = True\<rparr>)"
    by (simp add: registration_rejected_def reject_registration_def)
  have h3: "loginChallengeMap (example_db short_coseKey) ''login-challenge'' = Some True"
    by (simp add: example_db_def)
  have u1: "userHandle example_assertion = Some ''user-1''"
    by (simp add: example_assertion_def)
  have u2: "userDB (example_db short_coseKey) ''user-1'' = Some (example_user short_coseKey)"
    by (simp add: example_db_def)
  have u3: "base64urlToUint8Array (credentialID (credentials (example_user short_coseKey)))
            = Inr [1, 2, 3]"
    by code_simp
  have u4: "base64urlToUint8Array (publicKey (credentials (example_user short_coseKey)))
            = Inr short_coseBytes"
    by code_simp
  have n: "counter (credentials (example_user short_coseKey)) = 5"
    by (simp add: example_user_def)
  have r5: "authentication_rejected
              (verifyAuthenticationResponse assertion_accepted (reports 5)
                 \<lparr>auth_response = example_assertion,
                  auth_expectedChallenge = ''login-challenge'', auth_expectedRPID = rpID,
                  auth_expectedOrigin = ORIGIN,
                  authenticator =
                    \<lparr>spread_credential = example_assertion, auth_credentialID = [1, 2, 3],
                     auth_credentialPublicKey = short_coseBytes,
                     auth_counter = counter (credentials (example_user short_coseKey))\<rparr>\<rparr>)"
    by (simp add: authentication_rejected_def verifyAuthenticationResponse_def
          counter_accepted_def reports_def n)
  have rj: "authentication_rejected
              (reject_authentication
                 \<lparr>auth_response = example_assertion,
                  auth_expectedChallenge = ''login-challenge'', auth_expectedRPID = rpID,
                  auth_expectedOrigin = ORIGIN,
                  authenticator =
                    \<lparr>spread_credential = example_assertion, auth_credentialID = [1, 2, 3],
                     auth_credentialPublicKey = short_coseBytes,
                     auth_counter = counter (credentials (example_user short_coseKey))\<rparr>\<rparr>)"
    by (simp add: authentication_rejected_def reject_authentication_def)
  have "\<exists>msg code. verify_registration reject_registration (example_db short_coseKey)
            ''user-2'' () = (Json_error msg code, example_db short_coseKey)"
    using failed_verification_keeps_state[where db = "example_db short_coseKey"
        and userId = "''user-2''" and expectedChallenge = "''reg-challenge''"
        and vr = reject_registration and attestation = "()"
        and challenge = "''login-challenge''" and credential = example_assertion
        and loginId = "''user-1''" and userRecord = "example_user short_coseKey"
        and storedID = "[1, 2, 3]" and storedKey = short_coseBytes
        and va = reject_authentication] h1 h2
    by blast
  moreover have "\<exists>msg. verify_login (verifyAuthenticationResponse assertion_accepted (reports 5))
            (example_db short_coseKey) example_assertion ''login-challenge''
          = (Json_error msg 400, example_db short_coseKey)"
    using failed_verification_keeps_state[where db = "example_db short_coseKey"
        and userId = "''user-2''" and expectedChallenge = "''reg-challenge''"
        and vr = reject_registration and attestation = "()"
        and challenge = "''login-challenge''" and credential = example_assertion
        and loginId = "''user-1''" and userRecord = "example_user short_coseKey"
        and storedID = "[1, 2, 3]" and storedKey = short_coseBytes
        and va = "verifyAuthenticationResponse assertion_accepted (reports 5)"]
      h3 u1 u2 u3 u4 r5
    by simp
  moreover have "\<exists>msg. verify_login reject_authentication
            (example_db short_coseKey) example_assertion ''login-challenge''
          = (Json_error msg 400, example_db short_coseKey)"
    using failed_verification_keeps_state[where db = "example_db short_coseKey"
        and userId = "''user-2''" and expectedChallenge = "''reg-challenge''"
        and vr = reject_registration and attestation = "()"
        and challenge = "''login-challenge''" and credential = example_assertion
        and loginId = "''user-1''" and userRecord = "example_user short_coseKey"
        and storedID = "[1, 2, 3]" and storedKey = short_coseBytes
        and va = reject_authentication]
      h3 u1 u2 u3 u4 rj
    by simp
  ultimately show ?thesis using h1 h3 by auto
qed

text \<open>
  Claim C1 as stated fails: after a login whose verification fails, and after a
  registration whose verification fails, the challenge that the call found is still in its
  map.
\<close>

theorem failed_verification_keeps_challenge_counterexample:
  "fst (verify_login reject_authentication (example_db short_coseKey)
          example_assertion ''login-challenge'')
     = Json_error ''Unexpected authentication response challenge'' 400
   \<and> loginChallengeMap
       (snd (verify_login reject_authentication (example_db short_coseKey)
               example_assertion ''login-challenge'')) ''login-challenge'' = Some True
   \<and> fst (verify_registration reject_registration (example_db short_coseKey) ''user-2'' ())
     = Json_error ''Unexpected registration response challenge'' 400
   \<and> registrationChallengeMap
       (snd (verify_registration reject_registration (example_db short_coseKey) ''user-2'' ()))
       ''user-2'' = Some ''reg-challenge''"
  by code_simp

text \<open>
  Claim C8. When the attestation verifies, \<^verbatim>\<open>/verify-registration\<close> answers ok and the
  user's record holds exactly the credential identifier and the public key of the verified
  attestation, each as base64url text, and its counter, with the user name kept; whatever
  the record held before is overwritten. A call that does not answer ok leaves the user and
  credential store unchanged, and a call whose verification fails does not answer ok.
\<close>

theorem registration_commits_verified_credential:
  "(registrationChallengeMap db userId = Some expectedChallenge \<and> expectedChallenge \<noteq> []
      \<and> userDB db userId = Some userRecord
      \<and> vr \<lparr>reg_response = attestation, reg_expectedChallenge = expectedChallenge,
             reg_expectedRPID = rpID, reg_expectedOrigin = ORIGIN,
             requireUserVerification = True\<rparr> = Inr verification
      \<and> reg_verified verification \<and> registrationInfo verification = Some info \<longrightarrow>
    fst (verify_registration vr db userId attestation) = Json_registration_ok
    \<and> userDB (snd (verify_registration vr db userId attestation)) userId =
        Some \<lparr>username = username userRecord,
              credentials =
                \<lparr>credentialID = uint8ArrayToBase64Url (info_credentialID info),
                 publicKey = uint8ArrayToBase64Url (info_credentialPublicKey info),
                 counter = info_counter info\<rparr>\<rparr>)
 \<and> (fst (verify_registration vr db userId attestation) \<noteq> Json_registration_ok \<longrightarrow>
      userDB (snd (verify_registration vr db userId attestation)) = userDB db)
 \<and> (registrationChallengeMap db userId = Some expectedChallenge
      \<and> registration_rejected (vr \<lparr>reg_response = attestation,
            reg_expectedChallenge = expectedChallenge, reg_expectedRPID = rpID,
            reg_expectedOrigin = ORIGIN, requireUserVerification = True\<rparr>) \<longrightarrow>
      fst (verify_registration vr db userId attestation) \<noteq> Json_registration_ok)"
proof (intro conjI impI)
  assume "registrationChallengeMap db userId = Some expectedChallenge \<and> expectedChallenge \<noteq> []
      \<and> userDB db userId = Some userRecord
      \<and> vr \<lparr>reg_response = attestation, reg_expectedChallenge = expectedChallenge,
             reg_expectedRPID = rpID, reg_expectedOrigin = ORIGIN,
             requireUserVerification = True\<rparr> = Inr verification
      \<and> reg_verified verification \<and> registrationInfo verification = Some info"
  then have e: "verify_registration vr db userId attestation =
          (Json_registration_ok,
           db\<lparr>userDB := (userDB db)(userId \<mapsto>
                 \<lparr>username = username userRecord,
                  credentials =
                    \<lparr>credentialID = uint8ArrayToBase64Url (info_credentialID info),
                     publicKey = uint8ArrayToBase64Url (info_credentialPublicKey info),
                     counter = info_counter info\<rparr>\<rparr>),
              registrationChallengeMap := (registrationChallengeMap db)(userId := None)\<rparr>)"
    by (simp add: verify_registration_def)
  show "fst (verify_registration vr db userId attestation) = Json_registration_ok"
    by (simp add: e)
  show "userDB (snd (verify_registration vr db userId attestation)) userId =
        Some \<lparr>username = username userRecord,
              credentials =
                \<lparr>credentialID = uint8ArrayToBase64Url (info_credentialID info),
                 publicKey = uint8ArrayToBase64Url (info_credentialPublicKey info),
                 counter = info_counter info\<rparr>\<rparr>"
    by (simp add: e)
next
  assume "fst (verify_registration vr db userId attestation) \<noteq> Json_registration_ok"
  then show "userDB (snd (verify_registration vr db userId attestation)) = userDB db"
    using verify_registration_cases[of vr db userId attestation] by auto
next
  assume "registrationChallengeMap db userId = Some expectedChallenge
      \<and> registration_rejected (vr \<lparr>reg_response = attestation,
            reg_expectedChallenge = expectedChallenge, reg_expectedRPID = rpID,
            reg_expectedOrigin = ORIGIN, requireUserVerification = True\<rparr>)"
  then show "fst (verify_registration vr db userId attestation) \<noteq> Json_registration_ok"
    using verify_registration_rejected[of db userId expectedChallenge vr attestation] by auto
qed

theorem registration_commits_verified_credential_witness:
  "fst (verify_registration (accept_registration short_coseBytes 0)
          (example_db short_coseKey) ''user-2'' ())
     = Json_registration_ok
   \<and> userDB (snd (verify_registration (accept_registration short_coseBytes 0)
                    (example_db short_coseKey) ''user-2'' ())) ''user-2''
     = Some \<lparr>username = ''bob'',
             credentials = \<lparr>credentialID = ''AQID'', publicKey = short_coseKey, counter = 0\<rparr>\<rparr>
   \<and> userDB (snd (verify_registration reject_registration (example_db short_coseKey)
                    ''user-2'' ()))
     = userDB (example_db short_coseKey)"
proof -
  have h: "registrationChallengeMap (example_db short_coseKey) ''user-2'' = Some ''reg-challenge''
      \<and> ''reg-challenge'' \<noteq> []
      \<and> userDB (example_db short_coseKey) ''user-2'' = Some pending_user
      \<and> accept_registration short_coseBytes 0
           \<lparr>reg_response = (), reg_expectedChallenge = ''reg-challenge'',
             reg_expectedRPID = rpID, reg_expectedOrigin = ORIGIN,
             requireUserVerification = True\<rparr>
          = Inr \<lparr>reg_verified = True,
                 registrationInfo =
                   Some \<lparr>info_credentialID = [1, 2, 3],
                         info_credentialPublicKey = short_coseBytes,
                         info_counter = 0\<rparr>\<rparr>"
    by (simp add: example_db_def accept_registration_def)
  have r: "registration_rejected (reject_registration \<lparr>reg_response = (),
              reg_expectedChallenge = ''reg-challenge'', reg_expectedRPID = rpID,
              reg_expectedOrigin = ORIGIN, requireUserVerification = True\<rparr>)"
    by (simp add: registration_rejected_def reject_registration_def)
  have e1: "uint8ArrayToBase64Url [1, 2, 3] = ''AQID''" by code_simp
  have e2: "uint8ArrayToBase64Url short_coseBytes = short_coseKey" by code_simp
  have u: "username pending_user = ''bob''" by (simp add: pending_user_def)
  have a: "fst (verify_registration (accept_registration short_coseBytes 0)
                  (example_db short_coseKey) ''user-2'' ())
             = Json_registration_ok
           \<and> userDB (snd (verify_registration (accept_registration short_coseBytes 0)
                    (example_db short_coseKey) ''user-2'' ())) ''user-2''
             = Some \<lparr>username = ''bob'',
                     credentials = \<lparr>credentialID = ''AQID'', publicKey = short_coseKey,
                                    counter = 0\<rparr>\<rparr>"
    using registration_commits_verified_credential[where db = "example_db short_coseKey"
        and userId = "''user-2''" and expectedChallenge = "''reg-challenge''"
        and userRecord = pending_user and vr = "accept_registration short_coseBytes 0"
        and attestation = "()"
        and verification = "\<lparr>reg_verified = True,
                 registrationInfo =
                   Some \<lparr>info_credentialID = [1, 2, 3],
                         info_credentialPublicKey = short_coseBytes,
                         info_counter = 0\<rparr>\<rparr>"
        and info = "\<lparr>info_credentialID = [1, 2, 3],
                         info_credentialPublicKey = short_coseBytes,
                         info_counter = 0\<rparr>"] h
    by (simp add: e1 e2 u)
  have b: "userDB (snd (verify_registration reject_registration (example_db short_coseKey)
                    ''user-2'' ()))
           = userDB (example_db short_coseKey)"
    using registration_commits_verified_credential[where db = "example_db short_coseKey"
        and userId = "''user-2''" and expectedChallenge = "''reg-challenge''"
        and vr = reject_registration and attestation = "()"] h r
    by blast
  show ?thesis using a b by simp
qed

text \<open>
  The example state is one the server reaches from its start: alice asks for registration
  options and registers a credential whose verified attestation carries the key bytes
  \<open>key\<close> and the counter 5, bob asks for registration options, and login options are asked
  for.
\<close>

lemma example_db_reachable:
  "serve (accept_registration key 5) va empty_server
     [GenerateRegistrationOptions ''alice'' ''user-1'' ''first-challenge'',
      VerifyRegistration ''user-1'' (),
      GenerateRegistrationOptions ''bob'' ''user-2'' ''reg-challenge'',
      GenerateLoginOptions ''login-challenge'']
   = example_db (uint8ArrayToBase64Url key)"
proof -
  have e1: "uint8ArrayToBase64Url [1, 2, 3] = ''AQID''" by code_simp
  show ?thesis
    by (simp add: empty_server_def generate_registration_options_def verify_registration_def
          generate_login_options_def accept_registration_def example_db_def example_user_def
          pending_user_def e1 fun_upd_twist)
qed

lemma verify_registration_loginChallengeMap:
  "loginChallengeMap (snd (verify_registration vr db userId credential)) = loginChallengeMap db"
  using verify_registration_cases[of vr db userId credential] by auto

lemma verify_login_absent:
  assumes "loginChallengeMap db c = None"
  shows "loginChallengeMap (snd (verify_login va db credential challenge)) c = None"
  using verify_login_cases[of va db credential challenge] assms by auto

lemma handle_absent:
  assumes "loginChallengeMap db c = None" and "req \<noteq> GenerateLoginOptions c"
  shows "loginChallengeMap (snd (handle vr va db req)) c = None"
proof (cases req)
  case (GenerateRegistrationOptions userName userId challenge)
  then show ?thesis using assms
    by (simp add: generate_registration_options_def Let_def split: option.splits)
next
  case (VerifyRegistration userId credential)
  then show ?thesis using assms by (simp add: verify_registration_loginChallengeMap)
next
  case (GenerateLoginOptions challenge)
  then show ?thesis using assms by (simp add: generate_login_options_def)
next
  case (VerifyLogin credential challenge)
  then show ?thesis using assms by (simp add: verify_login_absent)
qed

lemma serve_absent:
  assumes "loginChallengeMap db c = None" and "GenerateLoginOptions c \<notin> set reqs"
  shows "loginChallengeMap (serve vr va db reqs) c = None"
  using assms
proof (induction reqs arbitrary: db)
  case Nil
  then show ?case by simp
next
  case (Cons req reqs)
  have "loginChallengeMap (snd (handle vr va db req)) c = None"
    using Cons.prems by (intro handle_absent) auto
  then show ?case using Cons by simp
qed


text \<open>
  Claim C7. Once a \<^verbatim>\<open>/verify-login\<close> call has consumed the login challenge \<open>c\<close> (the
  challenge was in the map before the call and is not after it), every later
  \<^verbatim>\<open>/verify-login\<close> call that presents \<open>c\<close> answers \<^verbatim>\<open>Challenge not found or expired\<close> with
  status 400 and changes nothing, whatever requests the server handled in between, as long
  as \<^verbatim>\<open>/generate-login-options\<close> does not issue the same value again.
\<close>

theorem consumed_login_challenge_rejected:
  assumes "loginChallengeMap db c \<noteq> None"
    and "loginChallengeMap (snd (verify_login va db credential c)) c = None"
    and "GenerateLoginOptions c \<notin> set reqs"
  shows "verify_login va (serve vr va (snd (verify_login va db credential c)) reqs) credential' c
         = (Json_error ''Challenge not found or expired'' 400,
            serve vr va (snd (verify_login va db credential c)) reqs)"
proof -
  have "loginChallengeMap (serve vr va (snd (verify_login va db credential c)) reqs) c = None"
    using assms(2,3) by (rule serve_absent)
  then show ?thesis by (simp add: verify_login_def)
qed


theorem consumed_login_challenge_rejected_witness:
  "loginChallengeMap (example_db short_coseKey) ''login-challenge'' = Some True
   \<and> loginChallengeMap
       (snd (verify_login (verifyAuthenticationResponse assertion_accepted (reports 6))
               (example_db short_coseKey) example_assertion ''login-challenge''))
       ''login-challenge'' = None
   \<and> fst (verify_login (verifyAuthenticationResponse assertion_accepted (reports 6))
           (serve (accept_registration short_coseBytes 0)
              (verifyAuthenticationResponse assertion_accepted (reports 6))
              (snd (verify_login (verifyAuthenticationResponse assertion_accepted (reports 6))
                      (example_db short_coseKey) example_assertion ''login-challenge''))
              [GenerateLoginOptions ''another-challenge'',
               VerifyLogin example_assertion ''another-challenge''])
           example_assertion ''login-challenge'')
     = Json_error ''Challenge not found or expired'' 400"
proof -
  have h1: "loginChallengeMap (example_db short_coseKey) ''login-challenge'' = Some True"
    by (simp add: example_db_def)
  then have h1': "loginChallengeMap (example_db short_coseKey) ''login-challenge'' \<noteq> None"
    by simp
  have h2: "loginChallengeMap
       (snd (verify_login (verifyAuthenticationResponse assertion_accepted (reports 6))
               (example_db short_coseKey) example_assertion ''login-challenge''))
       ''login-challenge'' = None"
    by code_simp
  have h3: "GenerateLoginOptions ''login-challenge''
            \<notin> set [GenerateLoginOptions ''another-challenge'',
                    VerifyLogin example_assertion ''another-challenge'']"
    by simp
  show ?thesis
    using consumed_login_challenge_rejected[OF h1' h2 h3, of "accept_registration short_coseBytes 0"
        example_assertion] h1 h2
    by simp
qed

text \<open>
  Claim C6, as amended. Take a \<^verbatim>\<open>/verify-login\<close> call with a known challenge for a user
  whose stored counter is \<open>N\<close> and whose stored credential identifier and public key are
  base64url text. If the assertion reports a counter that is not strictly greater than
  \<open>N\<close>, and the two counters are not both zero, the call answers \<^verbatim>\<open>ReplayDetectedError\<close>
  with status 400 and the state, and so the stored counter, is unchanged. If the assertion
  reports a strictly greater counter, or both counters are zero, the verification otherwise
  succeeds and \<^verbatim>\<open>parseCoseP256Key\<close> decodes the stored public key, the call answers ok with
  \<open>xHex\<close> and \<open>yHex\<close>, the stored counter becomes the reported value, the login challenge
  is removed, and nothing else changes.
\<close>

theorem login_counter_check:
  assumes "loginChallengeMap db challenge \<noteq> None"
    and "userHandle credential = Some userId" and "userId \<noteq> []"
    and "userDB db userId = Some userRecord"
    and "base64urlToUint8Array (credentialID (credentials userRecord)) = Inr storedID"
    and "base64urlToUint8Array (publicKey (credentials userRecord)) = Inr storedKey"
  shows "(reported_counter credential \<le> counter (credentials userRecord)
           \<and> \<not> (reported_counter credential = 0 \<and> counter (credentials userRecord) = 0) \<longrightarrow>
          verify_login (verifyAuthenticationResponse assertion_ok reported_counter)
            db credential challenge = (Json_error ''ReplayDetectedError'' 400, db))
       \<and> ((counter (credentials userRecord) < reported_counter credential
             \<or> (reported_counter credential = 0 \<and> counter (credentials userRecord) = 0))
           \<and> assertion_ok \<lparr>auth_response = credential, auth_expectedChallenge = challenge,
                 auth_expectedRPID = rpID, auth_expectedOrigin = ORIGIN,
                 authenticator =
                   \<lparr>spread_credential = credential, auth_credentialID = storedID,
                    auth_credentialPublicKey = storedKey,
                    auth_counter = counter (credentials userRecord)\<rparr>\<rparr>
           \<and> parseCoseP256Key (publicKey (credentials userRecord)) = Inr (xHex, yHex) \<longrightarrow>
          verify_login (verifyAuthenticationResponse assertion_ok reported_counter)
            db credential challenge =
            (Json_login_ok xHex yHex,
             db\<lparr>userDB := (userDB db)(userId \<mapsto> userRecord\<lparr>credentials :=
                     (credentials userRecord)\<lparr>counter := reported_counter credential\<rparr>\<rparr>),
                loginChallengeMap := (loginChallengeMap db)(challenge := None)\<rparr>))"
proof (intro conjI impI)
  assume "reported_counter credential \<le> counter (credentials userRecord)
           \<and> \<not> (reported_counter credential = 0 \<and> counter (credentials userRecord) = 0)"
  then have rej: "\<not> counter_accepted (reported_counter credential)
                      (counter (credentials userRecord))"
    by (auto simp: counter_accepted_def)
  from assms(1) obtain present where "loginChallengeMap db challenge = Some present"
    by blast
  then show "verify_login (verifyAuthenticationResponse assertion_ok reported_counter)
            db credential challenge = (Json_error ''ReplayDetectedError'' 400, db)"
    using assms(2-6) rej by (simp add: verify_login_def verifyAuthenticationResponse_def)
next
  assume h: "(counter (credentials userRecord) < reported_counter credential
             \<or> (reported_counter credential = 0 \<and> counter (credentials userRecord) = 0))
           \<and> assertion_ok \<lparr>auth_response = credential, auth_expectedChallenge = challenge,
                 auth_expectedRPID = rpID, auth_expectedOrigin = ORIGIN,
                 authenticator =
                   \<lparr>spread_credential = credential, auth_credentialID = storedID,
                    auth_credentialPublicKey = storedKey,
                    auth_counter = counter (credentials userRecord)\<rparr>\<rparr>
           \<and> parseCoseP256Key (publicKey (credentials userRecord)) = Inr (xHex, yHex)"
  then have acc: "counter_accepted (reported_counter credential)
                    (counter (credentials userRecord))"
    by (auto simp: counter_accepted_def)
  from assms(1) obtain present where "loginChallengeMap db challenge = Some present"
    by blast
  then show "verify_login (verifyAuthenticationResponse assertion_ok reported_counter)
            db credential challenge =
            (Json_login_ok xHex yHex,
             db\<lparr>userDB := (userDB db)(userId \<mapsto> userRecord\<lparr>credentials :=
                     (credentials userRecord)\<lparr>counter := reported_counter credential\<rparr>\<rparr>),
                loginChallengeMap := (loginChallengeMap db)(challenge := None)\<rparr>)"
    using assms(2-6) acc h
    by (simp add: verify_login_def verifyAuthenticationResponse_def Let_def)
qed

theorem login_counter_check_witness:
  "verify_login (verifyAuthenticationResponse assertion_accepted (reports 5))
     (example_db short_coseKey) example_assertion ''login-challenge''
     = (Json_error ''ReplayDetectedError'' 400, example_db short_coseKey)
   \<and> verify_login (verifyAuthenticationResponse assertion_accepted (reports 6))
       (example_db short_coseKey) example_assertion ''login-challenge''
     = (Json_login_ok ''01'' ''02'',
        (example_db short_coseKey)
          \<lparr>userDB := (userDB (example_db short_coseKey))(''user-1'' \<mapsto>
               (example_user short_coseKey)\<lparr>credentials :=
                  (credentials (example_user short_coseKey))\<lparr>counter := 6\<rparr>\<rparr>),
           loginChallengeMap :=
             (loginChallengeMap (example_db short_coseKey))(''login-challenge'' := None)\<rparr>)"
proof -
  have h1: "loginChallengeMap (example_db short_coseKey) ''login-challenge'' \<noteq> None"
    by (simp add: example_db_def)
  have h2: "userHandle example_assertion = Some ''user-1''"
    by (simp add: example_assertion_def)
  have h3: "''user-1'' \<noteq> []" by simp
  have h4: "userDB (example_db short_coseKey) ''user-1'' = Some (example_user short_coseKey)"
    by (simp add: example_db_def)
  have h5: "base64urlToUint8Array (credentialID (credentials (example_user short_coseKey)))
            = Inr [1, 2, 3]"
    by code_simp
  have h6: "base64urlToUint8Array (publicKey (credentials (example_user short_coseKey)))
            = Inr short_coseBytes"
    by code_simp
  have k: "parseCoseP256Key (publicKey (credentials (example_user short_coseKey)))
           = Inr (''01'', ''02'')"
    by code_simp
  have n: "counter (credentials (example_user short_coseKey)) = 5"
    by (simp add: example_user_def)
  have replay: "verify_login (verifyAuthenticationResponse assertion_accepted (reports 5))
     (example_db short_coseKey) example_assertion ''login-challenge''
     = (Json_error ''ReplayDetectedError'' 400, example_db short_coseKey)"
    using login_counter_check[OF h1 h2 h3 h4 h5 h6, of "reports 5" assertion_accepted] n
    by (simp add: reports_def)
  have advance: "verify_login (verifyAuthenticationResponse assertion_accepted (reports 6))
       (example_db short_coseKey) example_assertion ''login-challenge''
     = (Json_login_ok ''01'' ''02'',
        (example_db short_coseKey)
          \<lparr>userDB := (userDB (example_db short_coseKey))(''user-1'' \<mapsto>
               (example_user short_coseKey)\<lparr>credentials :=
                  (credentials (example_user short_coseKey))\<lparr>counter := 6\<rparr>\<rparr>),
           loginChallengeMap :=
             (loginChallengeMap (example_db short_coseKey))(''login-challenge'' := None)\<rparr>)"
    using login_counter_check[OF h1 h2 h3 h4 h5 h6, of "reports 6" assertion_accepted
        "''01''" "''02''"] n k
    by (simp add: reports_def assertion_accepted_def)
  show ?thesis using replay advance by simp
qed

text \<open>
  Claim C6 as stated fails: for a user whose stored public key is \<open>okp_coseKey\<close>, a key
  with no entry at the label \<open>-3\<close>, an assertion that reports the counter 6 against the
  stored counter 5 and that verifies is answered with an error, although the counter has been
  set to 6 and the challenge has been removed.
\<close>

theorem login_error_after_counter_update_counterexample:
  "fst (verify_login (verifyAuthenticationResponse assertion_accepted (reports 6))
          (example_db okp_coseKey) example_assertion ''login-challenge'')
     = Json_error ''COSE key missing x or y'' 400
   \<and> map_option (\<lambda>r. counter (credentials r))
       (userDB (snd (verify_login (verifyAuthenticationResponse assertion_accepted (reports 6))
                       (example_db okp_coseKey) example_assertion ''login-challenge''))
          ''user-1'') = Some 6
   \<and> loginChallengeMap
       (snd (verify_login (verifyAuthenticationResponse assertion_accepted (reports 6))
               (example_db okp_coseKey) example_assertion ''login-challenge''))
       ''login-challenge'' = None"
  by code_simp

end
